theory Spec2Isabelle
  imports Main "HOL-Library.Word" "HOL-Library.Sublist"
begin

unbundle bit_operations_syntax

section \<open>Strings and small helpers of the JavaScript runtime\<close>

text \<open>
  A JavaScript string is modelled as a HOL \<open>string\<close>: the list of the bytes of its UTF-8
  encoding.  For the ASCII text the service handles (URLs, commit hashes, hexadecimal keys)
  \<open>length\<close> is the \<open>.length\<close> of the source.
\<close>

text \<open>\<open>s.includes(t)\<close>: \<open>t\<close> occurs in \<open>s\<close> as a contiguous substring.\<close>

fun str_includes :: "string \<Rightarrow> string \<Rightarrow> bool" where
  "str_includes [] t = (t = [])"
| "str_includes (c # s) t = (prefix t (c # s) \<or> str_includes s t)"

text \<open>
  \<open>s.replace(t, '')\<close> with a string pattern: the first occurrence of \<open>t\<close> is removed, wherever it
  stands; a string without the pattern is returned as it is.
\<close>

fun remove_first :: "string \<Rightarrow> string \<Rightarrow> string" where
  "remove_first t [] = []"
| "remove_first t (c # s) =
     (if prefix t (c # s) then drop (length t) (c # s) else c # remove_first t s)"

text \<open>\<open>s.split('/').pop()\<close>: what follows the last slash (the whole string when it has none).\<close>

definition last_segment :: "string \<Rightarrow> string" where
  "last_segment s = rev (takeWhile (\<lambda>c. c \<noteq> CHR ''/'') (rev s))"

text \<open>\<open>s.trim()\<close> on ASCII white space.\<close>

definition is_space :: "char \<Rightarrow> bool" where
  "is_space c = (c \<in> set [CHR '' '', CHR 0x09, CHR 0x0A, CHR 0x0B, CHR 0x0C, CHR 0x0D])"

definition trim :: "string \<Rightarrow> string" where
  "trim s = rev (dropWhile is_space (rev (dropWhile is_space s)))"

text \<open>The decimal rendering of a number in a template literal.\<close>

definition digit_char :: "nat \<Rightarrow> char" where
  "digit_char d = ''0123456789abcdef'' ! (d mod 16)"

fun show_nat :: "nat \<Rightarrow> string" where
  "show_nat n = (if n < 10 then [digit_char n] else show_nat (n div 10) @ [digit_char (n mod 10)])"

declare show_nat.simps [simp del]

text \<open>\<open>path.join(a, b)\<close>, without the normalisation of dots and doubled slashes.\<close>

definition path_join :: "string \<Rightarrow> string \<Rightarrow> string" where
  "path_join a b = a @ ''/'' @ b"

section \<open>SHA-256 (\<open>crypto.createHash('sha256')\<close>)\<close>

type_synonym u32 = "32 word"
type_synonym byte = "8 word"

definition rotr :: "nat \<Rightarrow> u32 \<Rightarrow> u32" where
  "rotr n x = drop_bit n x OR push_bit (32 - n) x"

definition ch :: "u32 \<Rightarrow> u32 \<Rightarrow> u32 \<Rightarrow> u32" where
  "ch x y z = (x AND y) XOR (NOT x AND z)"

definition maj :: "u32 \<Rightarrow> u32 \<Rightarrow> u32 \<Rightarrow> u32" where
  "maj x y z = (x AND y) XOR (x AND z) XOR (y AND z)"

definition big_sigma0 :: "u32 \<Rightarrow> u32" where
  "big_sigma0 x = rotr 2 x XOR rotr 13 x XOR rotr 22 x"

definition big_sigma1 :: "u32 \<Rightarrow> u32" where
  "big_sigma1 x = rotr 6 x XOR rotr 11 x XOR rotr 25 x"

definition small_sigma0 :: "u32 \<Rightarrow> u32" where
  "small_sigma0 x = rotr 7 x XOR rotr 18 x XOR drop_bit 3 x"

definition small_sigma1 :: "u32 \<Rightarrow> u32" where
  "small_sigma1 x = rotr 17 x XOR rotr 19 x XOR drop_bit 10 x"

text \<open>The round constants and the initial hash value, written in decimal.\<close>

definition sha256_k :: "u32 list" where
  "sha256_k = map of_nat
    [1116352408, 1899447441, 3049323471, 3921009573, 961987163, 1508970993, 2453635748,
     2870763221, 3624381080, 310598401, 607225278, 1426881987, 1925078388, 2162078206,
     2614888103, 3248222580, 3835390401, 4022224774, 264347078, 604807628, 770255983,
     1249150122, 1555081692, 1996064986, 2554220882, 2821834349, 2952996808, 3210313671,
     3336571891, 3584528711, 113926993, 338241895, 666307205, 773529912, 1294757372,
     1396182291, 1695183700, 1986661051, 2177026350, 2456956037, 2730485921, 2820302411,
     3259730800, 3345764771, 3516065817, 3600352804, 4094571909, 275423344, 430227734,
     506948616, 659060556, 883997877, 958139571, 1322822218, 1537002063, 1747873779,
     1955562222, 2024104815, 2227730452, 2361852424, 2428436474, 2756734187, 3204031479,
     3329325298]"

record sha_state =
  va :: u32
  vb :: u32
  vc :: u32
  vd :: u32
  ve :: u32
  vf :: u32
  vg :: u32
  vh :: u32

definition sha256_h0 :: sha_state where
  "sha256_h0 = \<lparr>va = of_nat 1779033703, vb = of_nat 3144134277, vc = of_nat 1013904242,
     vd = of_nat 2773480762, ve = of_nat 1359893119, vf = of_nat 2600822924,
     vg = of_nat 528734635, vh = of_nat 1541459225\<rparr>"

text \<open>Padding: a one bit, zeros up to 56 modulo 64 bytes, the bit length on 64 bits.\<close>

definition be_bytes :: "nat \<Rightarrow> nat \<Rightarrow> byte list" where
  "be_bytes k n = map (\<lambda>i. of_nat (n div 2 ^ (8 * (k - 1 - i)))) [0..<k]"

definition sha256_pad :: "byte list \<Rightarrow> byte list" where
  "sha256_pad m =
     m @ [0x80] @ replicate ((119 - length m mod 64) mod 64) 0
       @ be_bytes 8 ((8 * length m) mod 2 ^ 64)"

fun chunks :: "nat \<Rightarrow> 'a list \<Rightarrow> 'a list list" where
  "chunks n xs = (if n = 0 \<or> xs = [] then [] else take n xs # chunks n (drop n xs))"

declare chunks.simps [simp del]

definition be_word :: "byte list \<Rightarrow> u32" where
  "be_word bs = foldl (\<lambda>acc b. push_bit 8 acc OR ucast b) 0 bs"

text \<open>The message schedule: sixteen words of the block, then forty-eight derived ones.\<close>

fun extend_schedule :: "nat \<Rightarrow> u32 list \<Rightarrow> u32 list" where
  "extend_schedule 0 w = w"
| "extend_schedule (Suc n) w =
     extend_schedule n
       (w @ [small_sigma1 (w ! (length w - 2)) + w ! (length w - 7)
             + small_sigma0 (w ! (length w - 15)) + w ! (length w - 16)])"

definition schedule :: "byte list \<Rightarrow> u32 list" where
  "schedule block = extend_schedule 48 (map be_word (chunks 4 block))"

definition sha256_round :: "u32 \<times> u32 \<Rightarrow> sha_state \<Rightarrow> sha_state" where
  "sha256_round kw s =
     (let t1 = vh s + big_sigma1 (ve s) + ch (ve s) (vf s) (vg s) + fst kw + snd kw;
          t2 = big_sigma0 (va s) + maj (va s) (vb s) (vc s)
      in \<lparr>va = t1 + t2, vb = va s, vc = vb s, vd = vc s,
          ve = vd s + t1, vf = ve s, vg = vf s, vh = vg s\<rparr>)"

definition sha256_block :: "byte list \<Rightarrow> sha_state \<Rightarrow> sha_state" where
  "sha256_block block s =
     (let r = fold sha256_round (zip sha256_k (schedule block)) s
      in \<lparr>va = va s + va r, vb = vb s + vb r, vc = vc s + vc r, vd = vd s + vd r,
          ve = ve s + ve r, vf = vf s + vf r, vg = vg s + vg r, vh = vh s + vh r\<rparr>)"

definition sha256 :: "byte list \<Rightarrow> sha_state" where
  "sha256 m = fold sha256_block (chunks 64 (sha256_pad m)) sha256_h0"

text \<open>\<open>digest('hex')\<close>: eight lower-case hexadecimal digits for each of the eight words.\<close>

definition hex_word :: "u32 \<Rightarrow> string" where
  "hex_word w = map (\<lambda>i. digit_char (unat (drop_bit (4 * (7 - i)) w) mod 16)) [0..<8]"

definition hex_digest :: "sha_state \<Rightarrow> string" where
  "hex_digest s = concat (map hex_word [va s, vb s, vc s, vd s, ve s, vf s, vg s, vh s])"

definition utf8_bytes :: "string \<Rightarrow> byte list" where
  "utf8_bytes s = map (\<lambda>c. of_nat (of_char c)) s"

definition sha256_hex :: "string \<Rightarrow> string" where
  "sha256_hex s = hex_digest (sha256 (utf8_bytes s))"

section \<open>The cache key (\<open>RepomixService.generateCacheKey\<close>)\<close>

text \<open>
  The second parameter has the default \<open>'latest'\<close>, which JavaScript takes when the argument
  is \<open>undefined\<close>: \<open>None\<close> here.
\<close>

definition key_material :: "string \<Rightarrow> string option \<Rightarrow> string" where
  "key_material repoUrl commitSha =
     repoUrl @ '':'' @ (case commitSha of None \<Rightarrow> ''latest'' | Some s \<Rightarrow> s)"

definition generateCacheKey :: "string \<Rightarrow> string option \<Rightarrow> string" where
  "generateCacheKey repoUrl commitSha = sha256_hex (key_material repoUrl commitSha)"

section \<open>The world the service runs in\<close>

text \<open>
  A thrown JavaScript \<open>Error\<close> is a value: its message.  An asynchronous function that may
  reject returns \<open>exn + 'a\<close> together with the world it leaves behind.
\<close>

datatype exn = Error string

fun message_of :: "exn \<Rightarrow> string" where
  "message_of (Error m) = m"

text \<open>
  \<open>catch (error) { throw new Error(`prefix: ${error.message}`) }\<close>, the wrapper most methods
  of the service put around their body.
\<close>

fun rethrow :: "string \<Rightarrow> exn \<Rightarrow> exn" where
  "rethrow pre (Error m) = Error (pre @ m)"

record RepoMetadata =
  repoUrl :: string
  commitSha :: string
  size' :: nat
  cachedAt :: string

text \<open>\<open>Partial<RepoMetadata>\<close>: every field may be absent.\<close>

record PartialRepoMetadata =
  p_repoUrl :: "string option"
  p_commitSha :: "string option"
  p_size :: "nat option"

record CachedRepo =
  content :: string
  metadata :: RepoMetadata

record RepoProcessResult =
  cacheKey :: string
  fromCache :: bool
  res_repoUrl :: "string option"
  res_commitSha :: "string option"
  res_size :: "nat option"
  res_cachedAt :: "string option"

text \<open>The types of the chat side (\<open>types/index.ts\<close>).\<close>

datatype role = System | User | Assistant | Tool

record ToolCall =
  id' :: string
  type' :: string
  function_name :: string
  function_arguments :: string

record ChatMessage =
  role :: role
  msg_content :: "string option"
  tool_call_id :: "string option"
  tool_calls :: "ToolCall list option"

text \<open>
  The parsed arguments of a tool invocation, read at the shape the tool's schema declares:
  \<open>repoUrl\<close> is required, \<open>forceRefresh\<close> may be absent.
\<close>

record ToolArguments =
  arg_repoUrl :: string
  arg_forceRefresh :: "bool option"

record ParsedToolCall =
  call_id :: string
  name :: string
  arguments :: ToolArguments

record ToolCallResult =
  tool :: string
  tool_arguments :: ToolArguments
  result :: "RepoProcessResult option"
  error :: "string option"

record TokenUsage =
  prompt_tokens :: nat
  completion_tokens :: nat
  total_tokens :: nat

record GroqChatResponse =
  message :: ChatMessage
  usage :: TokenUsage
  finishReason :: string

record ToolDefinition =
  def_type :: string
  def_name :: string
  def_description :: string
  def_required :: "string list"

record ChatRequest =
  req_message :: string
  req_cacheKey :: "string option"
  req_apiKey :: "string option"
  req_conversationHistory :: "ChatMessage list"

record ChatResponse =
  resp_response :: string
  resp_toolCalls :: "ToolCallResult list option"
  resp_usage :: TokenUsage
  resp_cacheKey :: "string option"

text \<open>
  What \<open>response.json()\<close> gives for a reply of the hosting API: it throws, or it yields
  \<open>null\<close> (on which \<open>data.sha\<close> throws a \<open>TypeError\<close>), or it yields a value whose \<open>sha\<close>
  property is a string or is \<open>undefined\<close>.
\<close>

datatype json_reply = JsonThrows string | JsonNull | JsonData "string option"

record http_response =
  ok :: bool
  body :: json_reply

datatype fs_op = Mkdir string | Access string | ReadFile string | WriteFile string | Rm string

text \<open>
  The environment: the process variables, the clock, and what every call that leaves the
  process answers.  \<open>fs_fault\<close> says which file-system operations fail for a reason of the
  operating system (permissions, a busy directory), with the message of the error;
  \<open>http_fetch\<close> is the global \<open>fetch\<close> (\<open>Inl\<close>: it rejects); \<open>exec_cmd\<close> runs a shell command
  (\<open>Inl\<close>: non-zero exit, \<open>Inr\<close>: its standard output); \<open>repomix_output\<close> is the text the
  packing tool leaves in its output file for a checkout (\<open>None\<close>: it leaves no file).
  \<open>JSON.stringify\<close> and \<open>JSON.parse\<close> belong to the runtime and are taken from the
  environment, \<open>JSON.parse\<close> at the type the source declares for its result
  (\<open>None\<close>: a \<open>SyntaxError\<close>).  \<open>groq_create\<close> is \<open>client.chat.completions.create\<close> of the
  model provider, for an API key, the messages and the tools offered (\<open>Inl\<close>: it throws).
  Each of them answers a call by its arguments: the same call gets the same answer for as
  long as a request is served.
\<close>

record environment =
  env_TEMP_DIR :: "string option"
  env_CACHE_DIR :: "string option"
  date_now :: nat
  iso_now :: string
  fs_fault :: "fs_op \<Rightarrow> string option"
  http_fetch :: "string \<Rightarrow> string + http_response"
  exec_cmd :: "string \<Rightarrow> string + string"
  repomix_output :: "string \<Rightarrow> string option"
  json_stringify_metadata :: "RepoMetadata \<Rightarrow> string"
  json_parse_metadata :: "string \<Rightarrow> RepoMetadata option"
  env_GROQ_API_KEY :: "string option"
  groq_create ::
    "string \<Rightarrow> ChatMessage list \<Rightarrow> ToolDefinition list option \<Rightarrow> string + GroqChatResponse"
  json_parse_arguments :: "string \<Rightarrow> ToolArguments option"
  json_stringify_result :: "RepoProcessResult \<Rightarrow> string"

text \<open>
  A call that leaves the process, with whether it succeeded: a file-system operation (and
  whether it is on the cache directory or on the temporary one), a
  \<open>fetch\<close> of a URL, a shell command, a completion request to the model provider (the
  messages sent, and whether tools were offered).
\<close>

datatype store = CacheDir | TempDir

datatype event =
    Fs store fs_op bool
  | Fetch string bool
  | Exec string bool
  | ModelCall "ChatMessage list" bool bool

text \<open>
  The state: the files of the cache directory, the workspace directories under the temporary
  directory with the files inside them, and the trace of the calls made so far.  The two
  directories are kept apart: the cache directory does not lie inside a workspace.
\<close>

record world =
  cache_files :: "string \<rightharpoonup> string"
  temp_dirs :: "string set"
  temp_files :: "string \<rightharpoonup> string"
  trace :: "event list"

definition emit :: "event \<Rightarrow> world \<Rightarrow> world" where
  "emit e w = w\<lparr>trace := trace w @ [e]\<rparr>"

text \<open>\<open>x || dflt\<close> on a string that may be \<open>undefined\<close>: the empty string is falsy too.\<close>

fun or_else :: "string option \<Rightarrow> string \<Rightarrow> string" where
  "or_else None d = d"
| "or_else (Some s) d = (if s = [] then d else s)"

definition tempDir :: "environment \<Rightarrow> string" where
  "tempDir env = or_else (env_TEMP_DIR env) ''./temp''"

definition cacheDir :: "environment \<Rightarrow> string" where
  "cacheDir env = or_else (env_CACHE_DIR env) ''./cache''"

subsection \<open>File system and process primitives\<close>

definition files_of :: "store \<Rightarrow> world \<Rightarrow> (string \<rightharpoonup> string)" where
  "files_of st w = (case st of CacheDir \<Rightarrow> cache_files w | TempDir \<Rightarrow> temp_files w)"

definition fs_mkdir :: "environment \<Rightarrow> store \<Rightarrow> string \<Rightarrow> world \<Rightarrow> (exn + unit) \<times> world" where
  "fs_mkdir env st d w =
     (case fs_fault env (Mkdir d) of
        Some m \<Rightarrow> (Inl (Error m), emit (Fs st (Mkdir d) False) w)
      | None \<Rightarrow> (Inr (), emit (Fs st (Mkdir d) True) w))"

text \<open>\<open>fs.access\<close> and \<open>fs.readFile\<close>: a file that is not there is an error as well.\<close>

definition fs_access :: "environment \<Rightarrow> store \<Rightarrow> string \<Rightarrow> world \<Rightarrow> (exn + unit) \<times> world" where
  "fs_access env st p w =
     (case fs_fault env (Access p) of
        Some m \<Rightarrow> (Inl (Error m), emit (Fs st (Access p) False) w)
      | None \<Rightarrow>
          (case files_of st w p of
             None \<Rightarrow> (Inl (Error ''ENOENT: no such file or directory''),
                       emit (Fs st (Access p) False) w)
           | Some c \<Rightarrow> (Inr (), emit (Fs st (Access p) True) w)))"

definition fs_readFile :: "environment \<Rightarrow> store \<Rightarrow> string \<Rightarrow> world \<Rightarrow> (exn + string) \<times> world" where
  "fs_readFile env st p w =
     (case fs_fault env (ReadFile p) of
        Some m \<Rightarrow> (Inl (Error m), emit (Fs st (ReadFile p) False) w)
      | None \<Rightarrow>
          (case files_of st w p of
             None \<Rightarrow> (Inl (Error ''ENOENT: no such file or directory''),
                       emit (Fs st (ReadFile p) False) w)
           | Some c \<Rightarrow> (Inr c, emit (Fs st (ReadFile p) True) w)))"

text \<open>\<open>fs.writeFile\<close> into the cache directory.\<close>

definition cache_writeFile ::
  "environment \<Rightarrow> string \<Rightarrow> string \<Rightarrow> world \<Rightarrow> (exn + unit) \<times> world" where
  "cache_writeFile env p c w =
     (case fs_fault env (WriteFile p) of
        Some m \<Rightarrow> (Inl (Error m), emit (Fs CacheDir (WriteFile p) False) w)
      | None \<Rightarrow>
          (Inr (), emit (Fs CacheDir (WriteFile p) True)
                     (w\<lparr>cache_files := (cache_files w)(p \<mapsto> c)\<rparr>)))"

text \<open>
  \<open>fs.rm(p, {recursive: true, force: true})\<close> on a workspace: the directory and the files
  below it go, unless the operating system refuses.
\<close>

definition fs_rm :: "environment \<Rightarrow> string \<Rightarrow> world \<Rightarrow> (exn + unit) \<times> world" where
  "fs_rm env p w =
     (case fs_fault env (Rm p) of
        Some m \<Rightarrow> (Inl (Error m), emit (Fs TempDir (Rm p) False) w)
      | None \<Rightarrow>
          (Inr (), emit (Fs TempDir (Rm p) True)
             (w\<lparr>temp_dirs := temp_dirs w - {p},
                temp_files := (\<lambda>f. if prefix (p @ ''/'') f then None else temp_files w f)\<rparr>)))"

definition fetch :: "environment \<Rightarrow> string \<Rightarrow> world \<Rightarrow> (exn + http_response) \<times> world" where
  "fetch env url w =
     (case http_fetch env url of
        Inl m \<Rightarrow> (Inl (Error m), emit (Fetch url False) w)
      | Inr r \<Rightarrow> (Inr r, emit (Fetch url True) w))"

definition execAsync :: "environment \<Rightarrow> string \<Rightarrow> world \<Rightarrow> (exn + string) \<times> world" where
  "execAsync env cmd w =
     (case exec_cmd env cmd of
        Inl m \<Rightarrow> (Inl (Error m), emit (Exec cmd False) w)
      | Inr out \<Rightarrow> (Inr out, emit (Exec cmd True) w))"

section \<open>\<open>RepomixService\<close>\<close>

subsection \<open>\<open>init\<close>\<close>

definition init :: "environment \<Rightarrow> world \<Rightarrow> (exn + unit) \<times> world" where
  "init env w =
     (case fs_mkdir env TempDir (tempDir env) w of
        (Inl e, w1) \<Rightarrow> (Inl e, w1)
      | (Inr u, w1) \<Rightarrow> fs_mkdir env CacheDir (cacheDir env) w1)"

subsection \<open>\<open>getLatestCommitShaFromGithub\<close>\<close>

text \<open>
  \<open>repoUrl.match(/github\.com\/([^\/]+)\/([^\/]+)/)\<close>: the leftmost place where
  \<open>github.com/\<close> is followed by a non-empty run without a slash, a slash, and another
  non-empty run without a slash; both runs are as long as they can be.
\<close>

definition not_slash :: "char \<Rightarrow> bool" where
  "not_slash c = (c \<noteq> CHR ''/'')"

definition match_here :: "string \<Rightarrow> (string \<times> string) option" where
  "match_here s =
     (if prefix ''github.com/'' s then
        (let rest = drop (length ''github.com/'') s;
             owner = takeWhile not_slash rest;
             after = dropWhile not_slash rest;
             repo = takeWhile not_slash (drop 1 after)
         in if owner \<noteq> [] \<and> after \<noteq> [] \<and> repo \<noteq> [] then Some (owner, repo) else None)
      else None)"

fun match_github :: "string \<Rightarrow> (string \<times> string) option" where
  "match_github [] = None"
| "match_github (c # s) =
     (case match_here (c # s) of Some m \<Rightarrow> Some m | None \<Rightarrow> match_github s)"

definition commits_url :: "string \<Rightarrow> string \<Rightarrow> string \<Rightarrow> string" where
  "commits_url owner cleanRepo branch =
     ''https://api.github.com/repos/'' @ owner @ ''/'' @ cleanRepo @ ''/commits/'' @ branch"

text \<open>\<open>const data = await response.json(); return data.sha\<close>\<close>

fun json_sha :: "http_response \<Rightarrow> exn + string option" where
  "json_sha r =
     (case body r of
        JsonThrows m \<Rightarrow> Inl (Error m)
      | JsonNull \<Rightarrow> Inl (Error ''Cannot read properties of null (reading sha)'')
      | JsonData sha \<Rightarrow> Inr sha)"

text \<open>The body of the \<open>try\<close> block.\<close>

definition getLatestCommitShaFromGithub_try ::
  "environment \<Rightarrow> string \<Rightarrow> world \<Rightarrow> (exn + string option) \<times> world" where
  "getLatestCommitShaFromGithub_try env url w =
     (case match_github url of
        None \<Rightarrow> (Inl (Error ''Invalid GitHub URL''), w)
      | Some (owner, repo) \<Rightarrow>
          (let cleanRepo = remove_first ''.git'' repo in
           case fetch env (commits_url owner cleanRepo ''main'') w of
             (Inl e, w1) \<Rightarrow> (Inl e, w1)
           | (Inr response, w1) \<Rightarrow>
               if \<not> ok response then
                 (case fetch env (commits_url owner cleanRepo ''master'') w1 of
                    (Inl e, w2) \<Rightarrow> (Inl e, w2)
                  | (Inr masterResponse, w2) \<Rightarrow>
                      if \<not> ok masterResponse
                      then (Inl (Error ''Could not fetch commit info from GitHub''), w2)
                      else (json_sha masterResponse, w2))
               else (json_sha response, w1)))"

text \<open>
  The whole method: whatever the body throws is caught, and \<open>'latest'\<close> is returned.  The
  result is \<open>None\<close> when the reply's \<open>sha\<close> is \<open>undefined\<close>.
\<close>

definition getLatestCommitShaFromGithub ::
  "environment \<Rightarrow> string \<Rightarrow> world \<Rightarrow> string option \<times> world" where
  "getLatestCommitShaFromGithub env url w =
     (case getLatestCommitShaFromGithub_try env url w of
        (Inl e, w1) \<Rightarrow> (Some ''latest'', w1)
      | (Inr sha, w1) \<Rightarrow> (sha, w1))"

subsection \<open>\<open>cloneRepo\<close>, \<open>getCommitSha\<close>, \<open>packRepo\<close>, \<open>readPackedRepo\<close>\<close>

definition repoName :: "string \<Rightarrow> string" where
  "repoName url = or_else (Some (remove_first ''.git'' (last_segment url))) ''repo''"

definition workspace_path :: "environment \<Rightarrow> string \<Rightarrow> string" where
  "workspace_path env url =
     path_join (tempDir env) (repoName url @ ''-'' @ show_nat (date_now env))"

text \<open>The shell commands the service runs.\<close>

definition clone_command :: "string \<Rightarrow> string \<Rightarrow> string" where
  "clone_command url repoPath = ''git clone --depth 1 '' @ url @ '' '' @ repoPath"

definition rev_parse_command :: "string \<Rightarrow> string" where
  "rev_parse_command repoPath = ''git -C '' @ repoPath @ '' rev-parse HEAD''"

definition repomix_command :: "string \<Rightarrow> string \<Rightarrow> string" where
  "repomix_command repoPath outputPath = ''repomix '' @ repoPath @ '' -o '' @ outputPath"

definition output_path :: "string \<Rightarrow> string" where
  "output_path repoPath = path_join repoPath ''repomix-output.txt''"

text \<open>A clone that succeeds leaves the checkout directory behind.\<close>

definition cloneRepo :: "environment \<Rightarrow> string \<Rightarrow> world \<Rightarrow> (exn + string) \<times> world" where
  "cloneRepo env url w =
     (let repoPath = workspace_path env url in
      case execAsync env (clone_command url repoPath) w of
        (Inl e, w1) \<Rightarrow> (Inl (rethrow ''Failed to clone repository: '' e), w1)
      | (Inr out, w1) \<Rightarrow> (Inr repoPath, w1\<lparr>temp_dirs := insert repoPath (temp_dirs w1)\<rparr>))"

definition getCommitSha :: "environment \<Rightarrow> string \<Rightarrow> world \<Rightarrow> string \<times> world" where
  "getCommitSha env repoPath w =
     (case execAsync env (rev_parse_command repoPath) w of
        (Inl e, w1) \<Rightarrow> (''latest'', w1)
      | (Inr out, w1) \<Rightarrow> (trim out, w1))"

text \<open>
  The packing tool that exits with zero has written what \<open>repomix_output\<close> says into its
  output file, if anything; \<open>fs.access\<close> then checks that the file is there.
\<close>

definition packRepo :: "environment \<Rightarrow> string \<Rightarrow> world \<Rightarrow> (exn + string) \<times> world" where
  "packRepo env repoPath w =
     (let outputPath = output_path repoPath in
      case execAsync env (repomix_command repoPath outputPath) w of
        (Inl e, w1) \<Rightarrow> (Inl (rethrow ''Failed to pack repository: '' e), w1)
      | (Inr out, w1) \<Rightarrow>
          (let w2 = (case repomix_output env repoPath of
                       None \<Rightarrow> w1
                     | Some c \<Rightarrow> w1\<lparr>temp_files := (temp_files w1)(outputPath \<mapsto> c)\<rparr>) in
           case fs_access env TempDir outputPath w2 of
             (Inl e, w3) \<Rightarrow> (Inl (rethrow ''Failed to pack repository: '' e), w3)
           | (Inr u, w3) \<Rightarrow> (Inr outputPath, w3)))"

definition readPackedRepo :: "environment \<Rightarrow> string \<Rightarrow> world \<Rightarrow> (exn + string) \<times> world" where
  "readPackedRepo env filePath w =
     (case fs_readFile env TempDir filePath w of
        (Inl e, w1) \<Rightarrow> (Inl (rethrow ''Failed to read packed repo: '' e), w1)
      | (Inr c, w1) \<Rightarrow> (Inr c, w1))"

subsection \<open>\<open>saveToCache\<close>, \<open>loadFromCache\<close>, \<open>cleanup\<close>\<close>

definition cachePath :: "environment \<Rightarrow> string \<Rightarrow> string" where
  "cachePath env key = path_join (cacheDir env) (key @ ''.txt'')"

definition metadataPath :: "environment \<Rightarrow> string \<Rightarrow> string" where
  "metadataPath env key = path_join (cacheDir env) (key @ ''.json'')"

definition fullMetadata :: "environment \<Rightarrow> string \<Rightarrow> PartialRepoMetadata \<Rightarrow> RepoMetadata" where
  "fullMetadata env c m =
     \<lparr>repoUrl = or_else (p_repoUrl m) [], commitSha = or_else (p_commitSha m) [],
      size' = length c, cachedAt = iso_now env\<rparr>"

definition saveToCache ::
  "environment \<Rightarrow> string \<Rightarrow> string \<Rightarrow> PartialRepoMetadata \<Rightarrow> world \<Rightarrow> (exn + string) \<times> world" where
  "saveToCache env key c m w =
     (case cache_writeFile env (cachePath env key) c w of
        (Inl e, w1) \<Rightarrow> (Inl (rethrow ''Failed to save to cache: '' e), w1)
      | (Inr u, w1) \<Rightarrow>
          (case cache_writeFile env (metadataPath env key)
                  (json_stringify_metadata env (fullMetadata env c m)) w1 of
             (Inl e, w2) \<Rightarrow> (Inl (rethrow ''Failed to save to cache: '' e), w2)
           | (Inr u, w2) \<Rightarrow> (Inr (cachePath env key), w2)))"

text \<open>The metadata \<open>loadFromCache\<close> starts from, kept when the sidecar cannot be used.\<close>

definition synthesized :: "environment \<Rightarrow> string \<Rightarrow> RepoMetadata" where
  "synthesized env c = \<lparr>repoUrl = [], commitSha = [], size' = length c, cachedAt = iso_now env\<rparr>"

definition loadFromCache ::
  "environment \<Rightarrow> string \<Rightarrow> world \<Rightarrow> CachedRepo option \<times> world" where
  "loadFromCache env key w =
     (case fs_access env CacheDir (cachePath env key) w of
        (Inl e, w1) \<Rightarrow> (None, w1)
      | (Inr u, w1) \<Rightarrow>
          (case fs_readFile env CacheDir (cachePath env key) w1 of
             (Inl e, w2) \<Rightarrow> (None, w2)
           | (Inr c, w2) \<Rightarrow>
               (case fs_readFile env CacheDir (metadataPath env key) w2 of
                  (Inl e, w3) \<Rightarrow> (Some \<lparr>content = c, metadata = synthesized env c\<rparr>, w3)
                | (Inr metadataContent, w3) \<Rightarrow>
                    (case json_parse_metadata env metadataContent of
                       None \<Rightarrow> (Some \<lparr>content = c, metadata = synthesized env c\<rparr>, w3)
                     | Some m \<Rightarrow> (Some \<lparr>content = c, metadata = m\<rparr>, w3)))))"

text \<open>\<open>cleanup\<close> swallows the failure of the removal: it only warns.\<close>

definition cleanup :: "environment \<Rightarrow> string \<Rightarrow> world \<Rightarrow> world" where
  "cleanup env repoPath w =
     (case fs_rm env repoPath w of
        (Inl e, w1) \<Rightarrow> w1
      | (Inr u, w1) \<Rightarrow> w1)"

subsection \<open>\<open>processRepo\<close>\<close>

definition cached_result :: "string \<Rightarrow> CachedRepo \<Rightarrow> RepoProcessResult" where
  "cached_result key cached =
     \<lparr>cacheKey = key, fromCache = True,
      res_repoUrl = Some (repoUrl (metadata cached)),
      res_commitSha = Some (commitSha (metadata cached)),
      res_size = Some (size' (metadata cached)),
      res_cachedAt = Some (cachedAt (metadata cached))\<rparr>"

text \<open>Packing, reading the artifact and saving it: the end of the \<open>try\<close> block.\<close>

definition pack_and_save ::
  "environment \<Rightarrow> string \<Rightarrow> string \<Rightarrow> string \<Rightarrow> string \<Rightarrow> world
     \<Rightarrow> (exn + RepoProcessResult) \<times> world" where
  "pack_and_save env url repoPath sha key w =
     (case packRepo env repoPath w of
        (Inl e, w1) \<Rightarrow> (Inl e, w1)
      | (Inr packedPath, w1) \<Rightarrow>
          (case readPackedRepo env packedPath w1 of
             (Inl e, w2) \<Rightarrow> (Inl e, w2)
           | (Inr c, w2) \<Rightarrow>
               (case saveToCache env key c
                       \<lparr>p_repoUrl = Some url, p_commitSha = Some sha, p_size = Some (length c)\<rparr>
                       w2 of
                  (Inl e, w3) \<Rightarrow> (Inl e, w3)
                | (Inr saved, w3) \<Rightarrow>
                    (Inr \<lparr>cacheKey = key, fromCache = False, res_repoUrl = Some url,
                          res_commitSha = Some sha, res_size = Some (length c),
                          res_cachedAt = None\<rparr>,
                     cleanup env repoPath w3))))"

text \<open>The \<open>try\<close> block after the clone has returned \<open>repoPath\<close>.\<close>

definition after_clone ::
  "environment \<Rightarrow> string \<Rightarrow> bool \<Rightarrow> string \<Rightarrow> world \<Rightarrow> (exn + RepoProcessResult) \<times> world" where
  "after_clone env url forceRefresh repoPath w =
     (case getCommitSha env repoPath w of
        (sha, w1) \<Rightarrow>
          (let key = generateCacheKey url (Some sha) in
           if \<not> forceRefresh then
             (case loadFromCache env key w1 of
                (Some cached, w2) \<Rightarrow> (Inr (cached_result key cached), cleanup env repoPath w2)
              | (None, w2) \<Rightarrow> pack_and_save env url repoPath sha key w2)
           else pack_and_save env url repoPath sha key w1))"

text \<open>
  The \<open>try\<close> and its \<open>catch\<close>: a clone that throws leaves \<open>repoPath\<close> undefined, and the error is
  thrown on; an error after the clone goes through \<open>if (repoPath) cleanup(repoPath)\<close> first.
\<close>

definition clone_and_process ::
  "environment \<Rightarrow> string \<Rightarrow> bool \<Rightarrow> world \<Rightarrow> (exn + RepoProcessResult) \<times> world" where
  "clone_and_process env url forceRefresh w =
     (case cloneRepo env url w of
        (Inl e, w1) \<Rightarrow> (Inl e, w1)
      | (Inr repoPath, w1) \<Rightarrow>
          (case after_clone env url forceRefresh repoPath w1 of
             (Inl e, w2) \<Rightarrow> (Inl e, if repoPath \<noteq> [] then cleanup env repoPath w2 else w2)
           | (Inr r, w2) \<Rightarrow> (Inr r, w2)))"

definition processRepo ::
  "environment \<Rightarrow> string \<Rightarrow> bool \<Rightarrow> world \<Rightarrow> (exn + RepoProcessResult) \<times> world" where
  "processRepo env url forceRefresh w =
     (case init env w of
        (Inl e, w0) \<Rightarrow> (Inl e, w0)
      | (Inr u, w0) \<Rightarrow>
          (case getLatestCommitShaFromGithub env url w0 of
             (sha, w1) \<Rightarrow>
               (let key = generateCacheKey url sha in
                if \<not> forceRefresh then
                  (case loadFromCache env key w1 of
                     (Some cached, w2) \<Rightarrow> (Inr (cached_result key cached), w2)
                   | (None, w2) \<Rightarrow> clone_and_process env url forceRefresh w2)
                else clone_and_process env url forceRefresh w1)))"

section \<open>The model provider client (\<open>GroqService\<close>)\<close>

definition toolDefinitions :: "ToolDefinition list" where
  "toolDefinitions =
     [\<lparr>def_type = ''function'', def_name = ''pack_repository'',
       def_description = ''Pack a GitHub repository into context for analysis. Use this when the user provides a GitHub URL or asks to analyze a repository.'',
       def_required = [''repoUrl'']\<rparr>]"

text \<open>
  The constructor: the key of the request, or else the one of the process; an empty key
  throws.  The service object is its key.
\<close>

definition new_GroqService :: "environment \<Rightarrow> string option \<Rightarrow> exn + string" where
  "new_GroqService env key =
     (let apiKey = (case key of None \<Rightarrow> or_else (env_GROQ_API_KEY env) [] | Some k \<Rightarrow> k) in
      if apiKey = [] then Inl (Error ''Groq API key is required'') else Inr apiKey)"

definition systemMessage :: "string option \<Rightarrow> ChatMessage" where
  "systemMessage repoContext =
     (if or_else repoContext [] \<noteq> [] then
        \<lparr>role = System,
         msg_content = Some (''You are an expert developer assistant. You have access to a packed repository context below. Use this context to answer questions about the codebase accurately.''
           @ [CHR 0x0A, CHR 0x0A] @ ''<REPO_CONTEXT>'' @ [CHR 0x0A] @ or_else repoContext []
           @ [CHR 0x0A] @ ''</REPO_CONTEXT>''),
         tool_call_id = None, tool_calls = None\<rparr>
      else
        \<lparr>role = System,
         msg_content = Some ''You are an expert developer assistant. Help users understand and work with their code.'',
         tool_call_id = None, tool_calls = None\<rparr>)"

definition chat ::
  "environment \<Rightarrow> string \<Rightarrow> ChatMessage list \<Rightarrow> ToolDefinition list option \<Rightarrow> string option
     \<Rightarrow> world \<Rightarrow> (exn + GroqChatResponse) \<times> world" where
  "chat env apiKey msgs tools repoContext w =
     (let allMessages = systemMessage repoContext # msgs;
          offered = (case tools of None \<Rightarrow> None | Some ts \<Rightarrow> if ts \<noteq> [] then Some ts else None)
      in case groq_create env apiKey allMessages offered of
           Inl m \<Rightarrow>
             (Inl (Error (''Groq API failed: '' @ m)), emit (ModelCall allMessages (offered \<noteq> None) False) w)
         | Inr r \<Rightarrow> (Inr r, emit (ModelCall allMessages (offered \<noteq> None) True) w))"

definition hasToolCalls :: "ChatMessage \<Rightarrow> bool" where
  "hasToolCalls m = (case tool_calls m of None \<Rightarrow> False | Some cs \<Rightarrow> cs \<noteq> [])"

text \<open>\<open>parseToolCalls\<close>: \<open>JSON.parse\<close> of one call's arguments that throws makes the whole map throw.\<close>

fun parse_each :: "environment \<Rightarrow> ToolCall list \<Rightarrow> exn + ParsedToolCall list" where
  "parse_each env [] = Inr []"
| "parse_each env (c # cs) =
     (case json_parse_arguments env (function_arguments c) of
        None \<Rightarrow> Inl (Error ''Unexpected token in JSON'')
      | Some a \<Rightarrow>
          (case parse_each env cs of
             Inl e \<Rightarrow> Inl e
           | Inr ps \<Rightarrow> Inr (\<lparr>call_id = id' c, name = function_name c, arguments = a\<rparr> # ps)))"

definition parseToolCalls :: "environment \<Rightarrow> ChatMessage \<Rightarrow> exn + ParsedToolCall list" where
  "parseToolCalls env m =
     (if \<not> hasToolCalls m then Inr []
      else parse_each env (case tool_calls m of None \<Rightarrow> [] | Some cs \<Rightarrow> cs))"

section \<open>The routes\<close>

datatype 'a reply = Status200 'a | Status400 string | Status500 string

subsection \<open>\<open>POST /api/repo/pack\<close>\<close>

record RepoPackRequest =
  pack_repoUrl :: string
  pack_forceRefresh :: "bool option"

definition pack_route ::
  "environment \<Rightarrow> RepoPackRequest \<Rightarrow> world \<Rightarrow> RepoProcessResult reply \<times> world" where
  "pack_route env rq w =
     (if pack_repoUrl rq = [] then (Status400 ''repoUrl is required'', w)
      else if \<not> str_includes (pack_repoUrl rq) ''github.com''
      then (Status400 ''Only GitHub URLs are supported currently'', w)
      else
        (case processRepo env (pack_repoUrl rq)
                (case pack_forceRefresh rq of None \<Rightarrow> False | Some b \<Rightarrow> b) w of
           (Inl e, w1) \<Rightarrow> (Status500 (message_of e), w1)
         | (Inr r, w1) \<Rightarrow> (Status200 r, w1)))"

subsection \<open>\<open>POST /api/chat\<close>\<close>

text \<open>The variables the loop over the parsed tool calls updates.\<close>

record turn =
  messages :: "ChatMessage list"
  response :: GroqChatResponse
  toolCalls :: "ToolCallResult list"
  finalCacheKey :: "string option"

text \<open>
  The \<open>try\<close> block of one \<open>pack_repository\<close> invocation: what it throws, with the variables and
  the world as they are at the throw (the pushes before it stay).
\<close>

definition pack_repository_try ::
  "environment \<Rightarrow> string \<Rightarrow> ParsedToolCall \<Rightarrow> turn \<Rightarrow> world \<Rightarrow> (exn + unit) \<times> turn \<times> world" where
  "pack_repository_try env apiKey call t w =
     (case processRepo env (arg_repoUrl (arguments call))
             (case arg_forceRefresh (arguments call) of None \<Rightarrow> False | Some b \<Rightarrow> b) w of
        (Inl e, w1) \<Rightarrow> (Inl e, t, w1)
      | (Inr res, w1) \<Rightarrow>
          (let t1 = t\<lparr>toolCalls := toolCalls t @
                       [\<lparr>tool = name call, tool_arguments = arguments call,
                         result = Some res, error = None\<rparr>],
                     messages := messages t @
                       [message (response t),
                        \<lparr>role = Tool, msg_content = Some (json_stringify_result env res),
                         tool_call_id = Some (call_id call), tool_calls = None\<rparr>]\<rparr>
           in case loadFromCache env (cacheKey res) w1 of
                (None, w2) \<Rightarrow> (Inr (), t1, w2)
              | (Some cachedData, w2) \<Rightarrow>
                  (case chat env apiKey (messages t1) None (Some (content cachedData)) w2 of
                     (Inl e, w3) \<Rightarrow> (Inl e, t1, w3)
                   | (Inr r, w3) \<Rightarrow>
                       (Inr (), t1\<lparr>response := r, finalCacheKey := Some (cacheKey res)\<rparr>, w3))))"

text \<open>One iteration of \<open>for (const call of parsedCalls)\<close>, with the \<open>catch\<close> of its \<open>try\<close>.\<close>

definition handle_call ::
  "environment \<Rightarrow> string \<Rightarrow> ParsedToolCall \<Rightarrow> turn \<times> world \<Rightarrow> turn \<times> world" where
  "handle_call env apiKey call tw =
     (case tw of (t, w) \<Rightarrow>
        if name call = ''pack_repository'' then
          (case pack_repository_try env apiKey call t w of
             (Inl e, t1, w1) \<Rightarrow>
               (t1\<lparr>toolCalls := toolCalls t1 @
                     [\<lparr>tool = name call, tool_arguments = arguments call,
                       result = None, error = Some (message_of e)\<rparr>]\<rparr>, w1)
           | (Inr u, t1, w1) \<Rightarrow> (t1, w1))
        else (t, w))"

definition handle_calls ::
  "environment \<Rightarrow> string \<Rightarrow> ParsedToolCall list \<Rightarrow> turn \<times> world \<Rightarrow> turn \<times> world" where
  "handle_calls env apiKey calls tw = fold (handle_call env apiKey) calls tw"

definition chatResponse :: "turn \<Rightarrow> ChatResponse" where
  "chatResponse t =
     \<lparr>resp_response = or_else (msg_content (message (response t))) [],
      resp_toolCalls = (if toolCalls t \<noteq> [] then Some (toolCalls t) else None),
      resp_usage = usage (response t),
      resp_cacheKey = finalCacheKey t\<rparr>"

text \<open>
  The handler after the first model call has answered: the tool calls, if any, then the
  response.  A throw of \<open>parseToolCalls\<close> reaches the outer \<open>catch\<close>.
\<close>

definition after_first_call ::
  "environment \<Rightarrow> string \<Rightarrow> turn \<Rightarrow> world \<Rightarrow> ChatResponse reply \<times> world" where
  "after_first_call env apiKey t w =
     (if hasToolCalls (message (response t)) then
        (case parseToolCalls env (message (response t)) of
           Inl e \<Rightarrow> (Status500 (message_of e), w)
         | Inr parsedCalls \<Rightarrow>
             (case handle_calls env apiKey parsedCalls (t, w) of
                (t1, w1) \<Rightarrow> (Status200 (chatResponse t1), w1)))
      else (Status200 (chatResponse t), w))"

definition chat_route ::
  "environment \<Rightarrow> ChatRequest \<Rightarrow> world \<Rightarrow> ChatResponse reply \<times> world" where
  "chat_route env rq w =
     (if req_message rq = [] then (Status400 ''Message is required'', w)
      else
        (case new_GroqService env (req_apiKey rq) of
           Inl e \<Rightarrow> (Status500 (message_of e), w)
         | Inr apiKey \<Rightarrow>
             (let msgs = req_conversationHistory rq @
                    [\<lparr>role = User, msg_content = Some (req_message rq),
                      tool_call_id = None, tool_calls = None\<rparr>];
                  preload =
                    (case req_cacheKey rq of
                       None \<Rightarrow> ((None, None), w)
                     | Some k \<Rightarrow>
                         if k = [] then ((None, Some k), w)
                         else (case loadFromCache env k w of
                                 (Some cached, w1) \<Rightarrow> ((Some (content cached), Some k), w1)
                               | (None, w1) \<Rightarrow> ((None, None), w1)))
              in case preload of
                   ((repoContext, currentCacheKey), w1) \<Rightarrow>
                     (case chat env apiKey msgs (Some toolDefinitions) repoContext w1 of
                        (Inl e, w2) \<Rightarrow> (Status500 (message_of e), w2)
                      | (Inr r, w2) \<Rightarrow>
                          after_first_call env apiKey
                            \<lparr>messages = msgs, response = r, toolCalls = [],
                             finalCacheKey = currentCacheKey\<rparr> w2))))"

section \<open>Observing a run\<close>

text \<open>
  The calls a run adds to the trace, and the predicates on them that the properties below
  are stated with.
\<close>

definition new_events :: "world \<Rightarrow> world \<Rightarrow> event list" where
  "new_events w w' = drop (length (trace w)) (trace w')"

fun is_exec :: "event \<Rightarrow> bool" where
  "is_exec (Exec c b) = True"
| "is_exec e = False"

fun is_write :: "event \<Rightarrow> bool" where
  "is_write (Fs st (WriteFile p) b) = True"
| "is_write e = False"

fun is_rm :: "event \<Rightarrow> bool" where
  "is_rm (Fs st (Rm p) b) = True"
| "is_rm e = False"

fun is_model_call :: "event \<Rightarrow> bool" where
  "is_model_call (ModelCall ms offered b) = True"
| "is_model_call e = False"


fun cache_lookup :: "event \<Rightarrow> bool" where
  "cache_lookup (Fs CacheDir (Access p) b) = True"
| "cache_lookup (Fs CacheDir (ReadFile p) b) = True"
| "cache_lookup e = False"

fun preparation :: "event \<Rightarrow> bool" where
  "preparation (Fs st (Mkdir d) b) = True"
| "preparation (Fetch u b) = True"
| "preparation e = cache_lookup e"

definition pack_threw :: "string \<Rightarrow> event list \<Rightarrow> bool" where
  "pack_threw p evs =
     (Exec (repomix_command p (output_path p)) False \<in> set evs
      \<or> Fs TempDir (Access (output_path p)) False \<in> set evs)"

text \<open>
  The text of the packing tool's output file once the tool has run on the checkout \<open>p\<close>:
  what the tool wrote, or else what was at that path before.
\<close>

definition packed_text :: "environment \<Rightarrow> string \<Rightarrow> world \<Rightarrow> string" where
  "packed_text env p w =
     (case repomix_output env p of
        Some c \<Rightarrow> c
      | None \<Rightarrow> (case temp_files w (output_path p) of Some c \<Rightarrow> c | None \<Rightarrow> []))"

definition removable :: "environment \<Rightarrow> string \<Rightarrow> bool" where
  "removable env p = (fs_fault env (Rm p) = None)"

definition sidecar_unusable :: "environment \<Rightarrow> world \<Rightarrow> string \<Rightarrow> bool" where
  "sidecar_unusable env w key =
     (fs_fault env (ReadFile (metadataPath env key)) \<noteq> None
      \<or> (case cache_files w (metadataPath env key) of
            None \<Rightarrow> True
          | Some s \<Rightarrow> json_parse_metadata env s = None))"




section \<open>Example environments\<close>

definition demo_url :: string where
  "demo_url = ''https://github.com/o/r''"

definition demo_metadata :: RepoMetadata where
  "demo_metadata =
     \<lparr>repoUrl = demo_url, commitSha = ''abc123'', size' = 11,
      cachedAt = ''2025-01-01T00:00:00.000Z''\<rparr>"

definition demo_stringify :: "RepoMetadata \<Rightarrow> string" where
  "demo_stringify m = repoUrl m @ ''|'' @ commitSha m @ ''|'' @ show_nat (size' m) @ ''|'' @ cachedAt m"

definition demo_parse :: "string \<Rightarrow> RepoMetadata option" where
  "demo_parse s = (if s = demo_stringify demo_metadata then Some demo_metadata else None)"

definition demo_arguments :: "string \<Rightarrow> ToolArguments option" where
  "demo_arguments s =
     (if s = ''A'' then Some \<lparr>arg_repoUrl = ''https://github.com/o/a'', arg_forceRefresh = None\<rparr>
      else if s = ''B''
      then Some \<lparr>arg_repoUrl = ''https://github.com/o/b'', arg_forceRefresh = Some True\<rparr>
      else None)"

definition no_usage :: TokenUsage where
  "no_usage = \<lparr>prompt_tokens = 0, completion_tokens = 0, total_tokens = 0\<rparr>"

definition first_answer :: GroqChatResponse where
  "first_answer =
     \<lparr>message =
        \<lparr>role = Assistant, msg_content = Some ''first answer'', tool_call_id = None,
         tool_calls = Some
           [\<lparr>id' = ''call_1'', type' = ''function'', function_name = ''pack_repository'',
              function_arguments = ''A''\<rparr>,
            \<lparr>id' = ''call_2'', type' = ''function'', function_name = ''pack_repository'',
              function_arguments = ''B''\<rparr>]\<rparr>,
      usage = no_usage, finishReason = ''tool_calls''\<rparr>"

definition second_answer :: GroqChatResponse where
  "second_answer =
     \<lparr>message =
        \<lparr>role = Assistant, msg_content = Some ''second answer'', tool_call_id = None,
         tool_calls = None\<rparr>,
      usage = no_usage, finishReason = ''stop''\<rparr>"

definition demo_model ::
  "string \<Rightarrow> ChatMessage list \<Rightarrow> ToolDefinition list option \<Rightarrow> string + GroqChatResponse" where
  "demo_model k ms tools = (case tools of Some ts \<Rightarrow> Inr first_answer | None \<Rightarrow> Inr second_answer)"

text \<open>
  An environment in which everything works, apart from the hosting API, which cannot be
  reached: directories can be made, every command exits with zero and prints a commit
  hash, the packing tool writes its output.
\<close>

definition demo_env :: environment where
  "demo_env =
     \<lparr>env_TEMP_DIR = None, env_CACHE_DIR = None, date_now = 7,
      iso_now = ''2025-01-01T00:00:00.000Z'',
      fs_fault = (\<lambda>op. None),
      http_fetch = (\<lambda>u. Inl ''fetch failed''),
      exec_cmd = (\<lambda>c. Inr (''abc123'' @ [CHR 0x0A])),
      repomix_output = (\<lambda>p. Some ''packed text''),
      json_stringify_metadata = demo_stringify,
      json_parse_metadata = demo_parse,
      env_GROQ_API_KEY = Some ''gsk_demo'',
      groq_create = demo_model,
      json_parse_arguments = demo_arguments,
      json_stringify_result = cacheKey\<rparr>"

text \<open>The same with a packing tool that is not installed and a workspace that cannot be removed.\<close>

definition stuck_env :: environment where
  "stuck_env =
     demo_env
       \<lparr>fs_fault := (\<lambda>op. case op of Rm p \<Rightarrow> Some ''EBUSY: resource busy or locked'' | _ \<Rightarrow> None),
        exec_cmd := (\<lambda>c. if prefix ''repomix'' c then Inl ''repomix: command not found''
                          else Inr (''abc123'' @ [CHR 0x0A]))\<rparr>"

text \<open>The same as \<open>demo_env\<close> with a packing tool that is not installed.\<close>

definition unpacked_env :: environment where
  "unpacked_env =
     demo_env
       \<lparr>exec_cmd := (\<lambda>c. if prefix ''repomix'' c then Inl ''repomix: command not found''
                          else Inr (''abc123'' @ [CHR 0x0A]))\<rparr>"

text \<open>The same as \<open>demo_env\<close> where no command can be run at all.\<close>

definition offline_env :: environment where
  "offline_env = demo_env\<lparr>exec_cmd := (\<lambda>c. Inl ''fatal: unable to access'')\<rparr>"

definition empty_world :: world where
  "empty_world = \<lparr>cache_files = Map.empty, temp_dirs = {}, temp_files = Map.empty, trace = []\<rparr>"

text \<open>A cache that holds one entry, without sidecar, under the key of a repository at \<open>'latest'\<close>.\<close>

definition cached_world :: "string \<Rightarrow> world" where
  "cached_world url =
     \<lparr>cache_files = [cachePath demo_env (generateCacheKey url (Some ''latest'')) \<mapsto> ''cached text''],
      temp_dirs = {}, temp_files = Map.empty, trace = []\<rparr>"

definition gitlab_url :: string where
  "gitlab_url = ''https://gitlab.com/o/r''"

definition demo_turn :: turn where
  "demo_turn =
     \<lparr>messages = [\<lparr>role = User, msg_content = Some ''pack it'', tool_call_id = None,
                    tool_calls = None\<rparr>],
      response = first_answer, toolCalls = [], finalCacheKey = None\<rparr>"

definition demo_call :: "string \<Rightarrow> string \<Rightarrow> bool option \<Rightarrow> ParsedToolCall" where
  "demo_call tool_name url force =
     \<lparr>call_id = ''call_1'', name = tool_name,
      arguments = \<lparr>arg_repoUrl = url, arg_forceRefresh = force\<rparr>\<rparr>"

definition demo_request :: ChatRequest where
  "demo_request =
     \<lparr>req_message = ''compare the two repositories'', req_cacheKey = None, req_apiKey = None,
      req_conversationHistory = []\<rparr>"

text \<open>A first answer of the model that asks for one forced ingestion.\<close>

definition single_answer :: GroqChatResponse where
  "single_answer =
     \<lparr>message =
        \<lparr>role = Assistant, msg_content = Some ''first answer'', tool_call_id = None,
         tool_calls = Some
           [\<lparr>id' = ''call_2'', type' = ''function'', function_name = ''pack_repository'',
              function_arguments = ''B''\<rparr>]\<rparr>,
      usage = no_usage, finishReason = ''tool_calls''\<rparr>"

definition single_turn :: turn where
  "single_turn =
     \<lparr>messages = [\<lparr>role = User, msg_content = Some ''pack it'', tool_call_id = None,
                    tool_calls = None\<rparr>],
      response = single_answer, toolCalls = [], finalCacheKey = None\<rparr>"

definition call_b :: ParsedToolCall where
  "call_b =
     \<lparr>call_id = ''call_2'', name = ''pack_repository'',
      arguments = \<lparr>arg_repoUrl = ''https://github.com/o/b'', arg_forceRefresh = Some True\<rparr>\<rparr>"

text \<open>A cache that holds an older text under the key of the demo repository's revision.\<close>

definition stale_world :: world where
  "stale_world =
     \<lparr>cache_files = [cachePath demo_env (generateCacheKey demo_url (Some ''abc123'')) \<mapsto> ''old text''],
      temp_dirs = {}, temp_files = Map.empty, trace = []\<rparr>"

text \<open>A cache entry whose sidecar was cut off after ten characters.\<close>

definition truncated_world :: world where
  "truncated_world =
     \<lparr>cache_files = [cachePath demo_env ''k'' \<mapsto> ''cached text'',
                     metadataPath demo_env ''k'' \<mapsto> take 10 (demo_stringify demo_metadata)],
      temp_dirs = {}, temp_files = Map.empty, trace = []\<rparr>"

text \<open>The same as \<open>demo_env\<close> with a hosting API that answers every request with an error status.\<close>

definition refusing_env :: environment where
  "refusing_env = demo_env\<lparr>http_fetch := (\<lambda>u. Inr \<lparr>ok = False, body = JsonNull\<rparr>)\<rparr>"

section \<open>What each method does to the world\<close>

lemmas prims = fs_mkdir_def fs_access_def fs_readFile_def cache_writeFile_def fs_rm_def
  fetch_def execAsync_def emit_def files_of_def

lemmas splits = option.splits prod.splits sum.splits if_splits json_reply.splits

lemma new_events_append [simp]: "trace w' = trace w @ evs \<Longrightarrow> new_events w w' = evs"
  by (simp add: new_events_def)

lemma init_summary:
  "init env w = (r, w') \<Longrightarrow>
     cache_files w' = cache_files w \<and> temp_dirs w' = temp_dirs w \<and> temp_files w' = temp_files w
     \<and> (\<exists>evs. trace w' = trace w @ evs \<and> list_all preparation evs
              \<and> list_all (\<lambda>e. \<not> cache_lookup e) evs)"
  by (auto simp: init_def prims split: splits)

lemma getLatest_summary:
  "getLatestCommitShaFromGithub env url w = (r, w') \<Longrightarrow>
     cache_files w' = cache_files w \<and> temp_dirs w' = temp_dirs w \<and> temp_files w' = temp_files w
     \<and> (\<exists>evs. trace w' = trace w @ evs \<and> list_all preparation evs
              \<and> list_all (\<lambda>e. \<not> cache_lookup e) evs)"
  by (auto simp: getLatestCommitShaFromGithub_def getLatestCommitShaFromGithub_try_def prims Let_def
      split: splits)


lemma loadFromCache_summary:
  "loadFromCache env key w = (r, w') \<Longrightarrow>
     cache_files w' = cache_files w \<and> temp_dirs w' = temp_dirs w \<and> temp_files w' = temp_files w
     \<and> (\<exists>evs. trace w' = trace w @ evs \<and> list_all preparation evs \<and> list_all cache_lookup evs)"
  by (auto simp: loadFromCache_def prims split: splits)


lemma cloneRepo_summary:
  "cloneRepo env url w = (r, w') \<Longrightarrow>
     cache_files w' = cache_files w \<and> temp_files w' = temp_files w
     \<and> (case r of
           Inl e \<Rightarrow> temp_dirs w' = temp_dirs w
                    \<and> trace w' = trace w @ [Exec (clone_command url (workspace_path env url)) False]
         | Inr p \<Rightarrow> p = workspace_path env url \<and> temp_dirs w' = insert p (temp_dirs w)
                    \<and> trace w' = trace w @ [Exec (clone_command url p) True])"
  by (auto simp: cloneRepo_def prims Let_def split: splits)

lemma cleanup_summary:
  "trace (cleanup env p w) = trace w @ [Fs TempDir (Rm p) (removable env p)]
       \<and> cache_files (cleanup env p w) = cache_files w
       \<and> (removable env p \<longrightarrow> p \<notin> temp_dirs (cleanup env p w)
                \<and> (\<forall>f. prefix (p @ ''/'') f \<longrightarrow> temp_files (cleanup env p w) f = None))
       \<and> (\<not> removable env p \<longrightarrow> temp_dirs (cleanup env p w) = temp_dirs w)"
  by (auto simp: cleanup_def removable_def prims split: splits)

lemma commands_differ [simp]:
  "rev_parse_command p \<noteq> repomix_command p' out"
  "clone_command url p \<noteq> repomix_command p' out"
  "clone_command url p \<noteq> rev_parse_command p'"
  by (simp_all add: rev_parse_command_def repomix_command_def clone_command_def)

lemma pack_and_save_Inr:
  assumes "pack_and_save env url p sha key w = (Inr r, w')"
  shows "r = \<lparr>cacheKey = key, fromCache = False, res_repoUrl = Some url,
               res_commitSha = Some sha, res_size = Some (length (packed_text env p w)),
               res_cachedAt = None\<rparr>
          \<and> trace w' = trace w @
               [Exec (repomix_command p (output_path p)) True,
                Fs TempDir (Access (output_path p)) True,
                Fs TempDir (ReadFile (output_path p)) True,
                Fs CacheDir (WriteFile (cachePath env key)) True,
                Fs CacheDir (WriteFile (metadataPath env key)) True,
                Fs TempDir (Rm p) (removable env p)]
          \<and> cache_files w' = (cache_files w)
               (cachePath env key \<mapsto> packed_text env p w,
                metadataPath env key \<mapsto> json_stringify_metadata env
                   (fullMetadata env (packed_text env p w)
                      \<lparr>p_repoUrl = Some url, p_commitSha = Some sha,
                       p_size = Some (length (packed_text env p w))\<rparr>))
          \<and> (removable env p \<longrightarrow> p \<notin> temp_dirs w'
                   \<and> (\<forall>f. prefix (p @ ''/'') f \<longrightarrow> temp_files w' f = None))"
  using assms
  by (auto simp: pack_and_save_def packRepo_def readPackedRepo_def saveToCache_def cleanup_def
        packed_text_def removable_def prims Let_def split: splits)

lemma pack_and_save_Inl:
  assumes "pack_and_save env url p sha key w = (Inl e, w')"
  shows "\<exists>evs. trace w' = trace w @ evs
          \<and> list_all (\<lambda>e. \<not> is_rm e \<and> \<not> cache_lookup e \<and> \<not> is_model_call e) evs
          \<and> temp_dirs w' = temp_dirs w
          \<and> (pack_threw p evs \<longrightarrow> cache_files w' = cache_files w)"
  using assms
  by (auto simp: pack_and_save_def packRepo_def readPackedRepo_def saveToCache_def cleanup_def
        pack_threw_def prims Let_def split: splits)

lemma preparation_quiet:
  "list_all preparation evs \<Longrightarrow>
     list_all (\<lambda>e. \<not> is_exec e \<and> \<not> is_write e \<and> \<not> is_rm e \<and> \<not> is_model_call e) evs"
  by (induction evs) (auto elim: preparation.elims cache_lookup.elims)

lemma preparation_not_pack: "list_all preparation evs \<Longrightarrow> \<not> pack_threw p evs"
  by (induction evs) (auto simp: pack_threw_def elim: preparation.elims cache_lookup.elims)

lemma pack_threw_append [simp]: "pack_threw p (xs @ ys) = (pack_threw p xs \<or> pack_threw p ys)"
  by (auto simp: pack_threw_def)

lemma pack_threw_Cons:
  "pack_threw p (e # ys) =
     (e = Exec (repomix_command p (output_path p)) False
      \<or> e = Fs TempDir (Access (output_path p)) False \<or> pack_threw p ys)"
  by (auto simp: pack_threw_def)

lemma pack_threw_Nil [simp]: "\<not> pack_threw p []"
  by (simp add: pack_threw_def)

lemma packed_text_cong: "temp_files w1 = temp_files w \<Longrightarrow> packed_text env p w1 = packed_text env p w"
  by (simp add: packed_text_def split: option.splits)

lemma getCommitSha_summary:
  "getCommitSha env p w = (sha, w') \<Longrightarrow>
     cache_files w' = cache_files w \<and> temp_dirs w' = temp_dirs w \<and> temp_files w' = temp_files w
     \<and> trace w' = trace w @ [Exec (rev_parse_command p) (\<not> isl (exec_cmd env (rev_parse_command p)))]"
  by (auto simp: getCommitSha_def prims split: splits)

lemma getCommitSha_independent: "fst (getCommitSha env p w) = fst (getCommitSha env p w0)"
  by (auto simp: getCommitSha_def prims split: splits)

lemma after_clone_forced:
  assumes "after_clone env url True p w = (Inr r, w')"
  shows "r = \<lparr>cacheKey = generateCacheKey url (Some (fst (getCommitSha env p w))), fromCache = False,
              res_repoUrl = Some url, res_commitSha = Some (fst (getCommitSha env p w)),
              res_size = Some (length (packed_text env p w)), res_cachedAt = None\<rparr>
       \<and> trace w' = trace w @
            [Exec (rev_parse_command p) (\<not> isl (exec_cmd env (rev_parse_command p))),
             Exec (repomix_command p (output_path p)) True,
             Fs TempDir (Access (output_path p)) True,
             Fs TempDir (ReadFile (output_path p)) True,
             Fs CacheDir (WriteFile
                (cachePath env (generateCacheKey url (Some (fst (getCommitSha env p w)))))) True,
             Fs CacheDir (WriteFile
                (metadataPath env (generateCacheKey url (Some (fst (getCommitSha env p w)))))) True,
             Fs TempDir (Rm p) (removable env p)]
       \<and> cache_files w' = (cache_files w)
            (cachePath env (generateCacheKey url (Some (fst (getCommitSha env p w))))
               \<mapsto> packed_text env p w,
             metadataPath env (generateCacheKey url (Some (fst (getCommitSha env p w))))
               \<mapsto> json_stringify_metadata env
                (fullMetadata env (packed_text env p w)
                   \<lparr>p_repoUrl = Some url, p_commitSha = Some (fst (getCommitSha env p w)),
                    p_size = Some (length (packed_text env p w))\<rparr>))"
proof -
  obtain sha w1 where S: "getCommitSha env p w = (sha, w1)" by fastforce
  from getCommitSha_summary[OF S] have
    s: "cache_files w1 = cache_files w" "temp_files w1 = temp_files w"
       "trace w1 = trace w @ [Exec (rev_parse_command p) (\<not> isl (exec_cmd env (rev_parse_command p)))]"
    by simp_all
  have sha: "fst (getCommitSha env p w) = sha" using S by simp
  from assms S have P: "pack_and_save env url p sha (generateCacheKey url (Some sha)) w1 = (Inr r, w')"
    by (simp add: after_clone_def)
  have pt: "packed_text env p w1 = packed_text env p w" using s(2) by (rule packed_text_cong)
  from pack_and_save_Inr[OF P] show ?thesis
    unfolding sha pt s by simp
qed

lemma after_clone_Inr:
  assumes "after_clone env url force p w = (Inr r, w')"
  shows "\<exists>mid. trace w' = trace w @ mid @ [Fs TempDir (Rm p) (removable env p)]
          \<and> \<not> pack_threw p mid \<and> list_all (\<lambda>e. \<not> is_model_call e) mid
          \<and> (removable env p \<longrightarrow> p \<notin> temp_dirs w'
                \<and> (\<forall>f. prefix (p @ ''/'') f \<longrightarrow> temp_files w' f = None))"
proof -
  obtain sha w1 where S: "getCommitSha env p w = (sha, w1)" by fastforce
  note s = getCommitSha_summary[OF S]
  let ?key = "generateCacheKey url (Some sha)"
  let ?e1 = "Exec (rev_parse_command p) (\<not> isl (exec_cmd env (rev_parse_command p)))"
  show ?thesis
  proof (cases "force")
    case True
    with assms S have P: "pack_and_save env url p sha ?key w1 = (Inr r, w')"
      by (simp add: after_clone_def)
    note q = pack_and_save_Inr[OF P]
    let ?mid = "[?e1, Exec (repomix_command p (output_path p)) True,
                Fs TempDir (Access (output_path p)) True,
                Fs TempDir (ReadFile (output_path p)) True,
                Fs CacheDir (WriteFile (cachePath env ?key)) True,
                Fs CacheDir (WriteFile (metadataPath env ?key)) True]"
    have a: "trace w' = trace w @ ?mid @ [Fs TempDir (Rm p) (removable env p)]" using q s by simp
    have b: "\<not> pack_threw p ?mid" by (simp add: pack_threw_Cons)
    have c: "list_all (\<lambda>e. \<not> is_model_call e) ?mid" by simp
    from q have d: "removable env p \<longrightarrow> p \<notin> temp_dirs w'
                \<and> (\<forall>f. prefix (p @ ''/'') f \<longrightarrow> temp_files w' f = None)" by simp
    show ?thesis by (rule exI[of _ ?mid]) (intro conjI a b c d)
  next
    case False
    obtain c w2 where L: "loadFromCache env ?key w1 = (c, w2)" by fastforce
    from loadFromCache_summary[OF L] obtain evs where
      l: "cache_files w2 = cache_files w1" "temp_dirs w2 = temp_dirs w1" "temp_files w2 = temp_files w1"
         "trace w2 = trace w1 @ evs" "list_all preparation evs" by blast
    have np: "\<not> pack_threw p evs" using l(5) by (rule preparation_not_pack)
    have nm: "list_all (\<lambda>e. \<not> is_model_call e) evs"
      using preparation_quiet[OF l(5)] by (simp add: list_all_iff)
    show ?thesis
    proof (cases c)
      case None
      with assms S L False have P: "pack_and_save env url p sha ?key w2 = (Inr r, w')"
        by (simp add: after_clone_def)
      note q = pack_and_save_Inr[OF P]
      let ?mid = "?e1 # evs @ [Exec (repomix_command p (output_path p)) True,
                Fs TempDir (Access (output_path p)) True,
                Fs TempDir (ReadFile (output_path p)) True,
                Fs CacheDir (WriteFile (cachePath env ?key)) True,
                Fs CacheDir (WriteFile (metadataPath env ?key)) True]"
      have a: "trace w' = trace w @ ?mid @ [Fs TempDir (Rm p) (removable env p)]" using q s l by simp
      have b: "\<not> pack_threw p ?mid" using np by (simp add: pack_threw_Cons)
      have c: "list_all (\<lambda>e. \<not> is_model_call e) ?mid" using nm by simp
      from q have d: "removable env p \<longrightarrow> p \<notin> temp_dirs w'
                \<and> (\<forall>f. prefix (p @ ''/'') f \<longrightarrow> temp_files w' f = None)" by simp
      show ?thesis by (rule exI[of _ ?mid]) (intro conjI a b c d)
    next
      case (Some cached)
      with assms S L False have w': "w' = cleanup env p w2" by (simp add: after_clone_def)
      note k = cleanup_summary[of env p w2]
      let ?mid = "?e1 # evs"
      have a: "trace w' = trace w @ ?mid @ [Fs TempDir (Rm p) (removable env p)]"
        using k s l w' by simp
      have b: "\<not> pack_threw p ?mid" using np by (simp add: pack_threw_Cons)
      have c: "list_all (\<lambda>e. \<not> is_model_call e) ?mid" using nm by simp
      from k w' have d: "removable env p \<longrightarrow> p \<notin> temp_dirs w'
                \<and> (\<forall>f. prefix (p @ ''/'') f \<longrightarrow> temp_files w' f = None)" by simp
      show ?thesis by (rule exI[of _ ?mid]) (intro conjI a b c d)
    qed
  qed
qed

lemma after_clone_Inl:
  assumes "after_clone env url force p w = (Inl e, w')"
  shows "\<exists>evs. trace w' = trace w @ evs
          \<and> list_all (\<lambda>e. \<not> is_model_call e) evs
          \<and> (pack_threw p evs \<longrightarrow> cache_files w' = cache_files w)"
proof -
  obtain sha w1 where S: "getCommitSha env p w = (sha, w1)" by fastforce
  note s = getCommitSha_summary[OF S]
  let ?key = "generateCacheKey url (Some sha)"
  let ?e1 = "Exec (rev_parse_command p) (\<not> isl (exec_cmd env (rev_parse_command p)))"
  obtain c w2 where L: "loadFromCache env ?key w1 = (c, w2)" by fastforce
  from loadFromCache_summary[OF L] obtain evs where
    l: "cache_files w2 = cache_files w1" "temp_dirs w2 = temp_dirs w1" "temp_files w2 = temp_files w1"
       "trace w2 = trace w1 @ evs" "list_all preparation evs" by blast
  have np: "\<not> pack_threw p evs" using l(5) by (rule preparation_not_pack)
  have nm: "list_all (\<lambda>e. \<not> is_model_call e) evs"
    using preparation_quiet[OF l(5)] by (simp add: list_all_iff)
  obtain wx pre where wx: "pack_and_save env url p sha ?key wx = (Inl e, w')"
     "trace wx = trace w @ ?e1 # pre" "cache_files wx = cache_files w"
     "\<not> pack_threw p pre" "list_all (\<lambda>e. \<not> is_model_call e) pre"
  proof (cases "force")
    case True
    with assms S have "pack_and_save env url p sha ?key w1 = (Inl e, w')"
      by (simp add: after_clone_def)
    then show ?thesis using that[of w1 "[]"] s by simp
  next
    case False
    with assms S L have "pack_and_save env url p sha ?key w2 = (Inl e, w')"
      by (cases c) (simp_all add: after_clone_def)
    then show ?thesis using that[of w2 evs] s l np nm by simp
  qed
  from pack_and_save_Inl[OF wx(1)] obtain evs2 where
    q: "trace w' = trace wx @ evs2"
       "list_all (\<lambda>e. \<not> is_rm e \<and> \<not> cache_lookup e \<and> \<not> is_model_call e) evs2"
       "pack_threw p evs2 \<longrightarrow> cache_files w' = cache_files wx" by blast
  have a: "trace w' = trace w @ (?e1 # pre @ evs2)" using q wx by simp
  have b: "list_all (\<lambda>e. \<not> is_model_call e) (?e1 # pre @ evs2)"
    using q(2) wx(5) by (auto simp: list_all_iff)
  have c: "pack_threw p (?e1 # pre @ evs2) \<longrightarrow> cache_files w' = cache_files w"
    using q(3) wx(3,4) by (simp add: pack_threw_Cons)
  show ?thesis by (rule exI[of _ "?e1 # pre @ evs2"]) (intro conjI a b c)
qed

lemma workspace_path_nonempty [simp]: "workspace_path env url \<noteq> []"
  by (simp add: workspace_path_def path_join_def)

lemma clone_and_process_summary:
  assumes "clone_and_process env url force w = (res, w')"
  shows "\<exists>evs. trace w' = trace w @ evs \<and> list_all (\<lambda>e. \<not> is_model_call e) evs
          \<and> (Exec (clone_command url (workspace_path env url)) True \<in> set evs \<longrightarrow>
                last evs = Fs TempDir (Rm (workspace_path env url)) (removable env (workspace_path env url))
                \<and> (removable env (workspace_path env url) \<longrightarrow>
                      workspace_path env url \<notin> temp_dirs w'
                      \<and> (\<forall>f. prefix (workspace_path env url @ ''/'') f \<longrightarrow> temp_files w' f = None)))
          \<and> (pack_threw (workspace_path env url) evs \<longrightarrow>
                isl res \<and> cache_files w' = cache_files w
                \<and> Exec (clone_command url (workspace_path env url)) True \<in> set evs)"
proof -
  let ?ws = "workspace_path env url"
  obtain rc w1 where C: "cloneRepo env url w = (rc, w1)" by fastforce
  note c = cloneRepo_summary[OF C]
  show ?thesis
  proof (cases rc)
    case (Inl e)
    with assms C have r: "res = Inl e" "w' = w1" by (simp_all add: clone_and_process_def)
    let ?evs = "[Exec (clone_command url ?ws) False]"
    have a: "trace w' = trace w @ ?evs" using c Inl r by simp
    have "\<not> pack_threw ?ws ?evs" by (simp add: pack_threw_Cons)
    then show ?thesis using a by (intro exI[of _ ?evs]) simp
  next
    case (Inr p)
    with c have p: "p = ?ws" and c1: "cache_files w1 = cache_files w"
      "trace w1 = trace w @ [Exec (clone_command url ?ws) True]" by simp_all
    obtain ra w2 where A: "after_clone env url force ?ws w1 = (ra, w2)" by fastforce
    show ?thesis
    proof (cases ra)
      case (Inr r)
      with assms C \<open>rc = Inr p\<close> p A have r: "res = Inr r" "w' = w2"
        by (simp_all add: clone_and_process_def)
      from after_clone_Inr[OF A[unfolded Inr]] obtain mid where
        m: "trace w2 = trace w1 @ mid @ [Fs TempDir (Rm ?ws) (removable env ?ws)]"
           "\<not> pack_threw ?ws mid" "list_all (\<lambda>e. \<not> is_model_call e) mid"
           "removable env ?ws \<longrightarrow> ?ws \<notin> temp_dirs w2
                \<and> (\<forall>f. prefix (?ws @ ''/'') f \<longrightarrow> temp_files w2 f = None)" by blast
      let ?evs = "Exec (clone_command url ?ws) True # mid @ [Fs TempDir (Rm ?ws) (removable env ?ws)]"
      have a: "trace w' = trace w @ ?evs" using c1 m(1) r by simp
      have b: "list_all (\<lambda>e. \<not> is_model_call e) ?evs" using m(3) by simp
      have d: "\<not> pack_threw ?ws ?evs" using m(2) by (simp add: pack_threw_Cons)
      have e: "last ?evs = Fs TempDir (Rm ?ws) (removable env ?ws)" by simp
      have g: "isl res \<and> cache_files w' = cache_files w
                \<and> Exec (clone_command url ?ws) True \<in> set ?evs" if "pack_threw ?ws ?evs"
        using that d by simp
      have f: "removable env ?ws \<longrightarrow> ?ws \<notin> temp_dirs w'
                \<and> (\<forall>f. prefix (?ws @ ''/'') f \<longrightarrow> temp_files w' f = None)"
        using m(4) r by simp
      show ?thesis
        by (rule exI[of _ ?evs], intro conjI impI a b e f) (use g in blast)+
    next
      case (Inl e)
      with assms C \<open>rc = Inr p\<close> p A have r: "res = Inl e" "w' = cleanup env ?ws w2"
        by (simp_all add: clone_and_process_def)
      from after_clone_Inl[OF A[unfolded Inl]] obtain evs0 where
        m: "trace w2 = trace w1 @ evs0" "list_all (\<lambda>e. \<not> is_model_call e) evs0"
           "pack_threw ?ws evs0 \<longrightarrow> cache_files w2 = cache_files w1" by blast
      note k = cleanup_summary[of env ?ws w2]
      let ?evs = "Exec (clone_command url ?ws) True # evs0 @ [Fs TempDir (Rm ?ws) (removable env ?ws)]"
      have a: "trace w' = trace w @ ?evs" using c1 m(1) r k by simp
      have b: "list_all (\<lambda>e. \<not> is_model_call e) ?evs" using m(2) by simp
      have d: "pack_threw ?ws ?evs \<longrightarrow> cache_files w' = cache_files w"
        using m(3) c1 k r by (simp add: pack_threw_Cons)
      have e: "last ?evs = Fs TempDir (Rm ?ws) (removable env ?ws)" by simp
      have f: "removable env ?ws \<longrightarrow> ?ws \<notin> temp_dirs w'
                \<and> (\<forall>f. prefix (?ws @ ''/'') f \<longrightarrow> temp_files w' f = None)"
        using k r by simp
      have g: "Exec (clone_command url ?ws) True \<in> set ?evs" by simp
      have h: "isl res" using r by simp
      have cf: "cache_files w' = cache_files w" if "pack_threw ?ws ?evs"
        using that d by simp
      show ?thesis
        by (rule exI[of _ ?evs], intro conjI impI a b e f g h cf)
    qed
  qed
qed

lemma prelude:
  assumes "init env w = (Inr u, w0)" and "getLatestCommitShaFromGithub env url w0 = (sha, w1)"
  shows "cache_files w1 = cache_files w \<and> temp_dirs w1 = temp_dirs w \<and> temp_files w1 = temp_files w
       \<and> (\<exists>evs. trace w1 = trace w @ evs \<and> list_all preparation evs
                 \<and> list_all (\<lambda>e. \<not> cache_lookup e) evs)"
proof -
  from init_summary[OF assms(1)] obtain e0 where
    a: "cache_files w0 = cache_files w" "temp_dirs w0 = temp_dirs w" "temp_files w0 = temp_files w"
       "trace w0 = trace w @ e0" "list_all preparation e0" "list_all (\<lambda>e. \<not> cache_lookup e) e0"
    by blast
  from getLatest_summary[OF assms(2)] obtain e1 where
    b: "cache_files w1 = cache_files w0" "temp_dirs w1 = temp_dirs w0" "temp_files w1 = temp_files w0"
       "trace w1 = trace w0 @ e1" "list_all preparation e1" "list_all (\<lambda>e. \<not> cache_lookup e) e1"
    by blast
  have "trace w1 = trace w @ (e0 @ e1)" using a b by simp
  moreover have "list_all preparation (e0 @ e1)" using a b by simp
  moreover have "list_all (\<lambda>e. \<not> cache_lookup e) (e0 @ e1)" using a b by simp
  ultimately show ?thesis using a(1-3) b(1-3) by (intro conjI exI[of _ "e0 @ e1"]) simp_all
qed

text \<open>
  Every run of \<open>processRepo\<close> is a prelude of preparations (making the directories, asking
  the hosting API, looking the key up) followed, or not, by the block that clones.
\<close>

lemma processRepo_shape:
  assumes "processRepo env url force w = (res, w')"
  shows "\<exists>pre wm. list_all preparation pre \<and> trace wm = trace w @ pre
           \<and> cache_files wm = cache_files w \<and> temp_dirs wm = temp_dirs w
           \<and> temp_files wm = temp_files w
           \<and> (force \<longrightarrow> list_all (\<lambda>e. \<not> cache_lookup e) pre)
           \<and> ((w' = wm \<and> (force \<longrightarrow> isl res))
               \<or> clone_and_process env url force wm = (res, w'))"
proof -
  obtain r0 w0 where I: "init env w = (r0, w0)" by fastforce
  show ?thesis
  proof (cases r0)
    case (Inl e)
    with I assms have r: "res = Inl e" "w' = w0" by (simp_all add: processRepo_def)
    from init_summary[OF I] obtain e0 where
      a: "cache_files w0 = cache_files w" "temp_dirs w0 = temp_dirs w" "temp_files w0 = temp_files w"
       "trace w0 = trace w @ e0" "list_all preparation e0" "list_all (\<lambda>e. \<not> cache_lookup e) e0"
      by blast
    show ?thesis
      by (rule exI[of _ e0], rule exI[of _ w0]) (use a r in simp)
  next
    case (Inr u)
    obtain sha w1 where G: "getLatestCommitShaFromGithub env url w0 = (sha, w1)" by fastforce
    from prelude[OF I[unfolded Inr] G] obtain e1 where
      a: "cache_files w1 = cache_files w" "temp_dirs w1 = temp_dirs w" "temp_files w1 = temp_files w"
       "trace w1 = trace w @ e1" "list_all preparation e1" "list_all (\<lambda>e. \<not> cache_lookup e) e1"
      by blast
    show ?thesis
    proof (cases force)
      case True
      with assms I Inr G have "clone_and_process env url force w1 = (res, w')"
        by (simp add: processRepo_def)
      then show ?thesis
        by (intro exI[of _ e1] exI[of _ w1]) (use a in simp)
    next
      case False
      obtain c w2 where L: "loadFromCache env (generateCacheKey url sha) w1 = (c, w2)" by fastforce
      from loadFromCache_summary[OF L] obtain e2 where
        l: "cache_files w2 = cache_files w1" "temp_dirs w2 = temp_dirs w1"
           "temp_files w2 = temp_files w1" "trace w2 = trace w1 @ e2" "list_all preparation e2"
        by blast
      have t: "trace w2 = trace w @ (e1 @ e2)" using a l by simp
      have q: "list_all preparation (e1 @ e2)" using a l by simp
      have "(w' = w2) \<or> clone_and_process env url force w2 = (res, w')"
        using assms I Inr G L False by (cases c) (simp_all add: processRepo_def)
      then show ?thesis
        by (intro exI[of _ "e1 @ e2"] exI[of _ w2]) (use a l t q False in simp)
    qed
  qed
qed

lemma preparation_no_clone:
  "list_all preparation evs \<Longrightarrow> Exec c b \<notin> set evs"
  by (induction evs) (auto elim: preparation.elims cache_lookup.elims)

lemma paths_differ [simp]:
  "cachePath env k \<noteq> metadataPath env k" "metadataPath env k \<noteq> cachePath env k"
  by (simp_all add: cachePath_def metadataPath_def path_join_def)


lemma forced_result:
  assumes run: "processRepo env url True w = (Inr r, w')"
  shows "r = \<lparr>cacheKey = generateCacheKey url (Some (fst (getCommitSha env (workspace_path env url) w))),
              fromCache = False, res_repoUrl = Some url,
              res_commitSha = Some (fst (getCommitSha env (workspace_path env url) w)),
              res_size = Some (length (packed_text env (workspace_path env url) w)),
              res_cachedAt = None\<rparr>
       \<and> cache_files w' (cachePath env (cacheKey r))
           = Some (packed_text env (workspace_path env url) w)
       \<and> cache_files w' (metadataPath env (cacheKey r))
           = Some (json_stringify_metadata env
                \<lparr>repoUrl = url, commitSha = fst (getCommitSha env (workspace_path env url) w),
                 size' = length (packed_text env (workspace_path env url) w),
                 cachedAt = iso_now env\<rparr>)
       \<and> Exec (clone_command url (workspace_path env url)) True \<in> set (new_events w w')
       \<and> Exec (repomix_command (workspace_path env url) (output_path (workspace_path env url))) True
            \<in> set (new_events w w')
       \<and> Fs CacheDir (WriteFile (cachePath env (cacheKey r))) True \<in> set (new_events w w')
       \<and> list_all (\<lambda>e. \<not> cache_lookup e) (new_events w w')"
proof -
  let ?ws = "workspace_path env url"
  from processRepo_shape[OF run] obtain pre where "\<exists>wm. list_all preparation pre
           \<and> trace wm = trace w @ pre
           \<and> cache_files wm = cache_files w \<and> temp_dirs wm = temp_dirs w
           \<and> temp_files wm = temp_files w
           \<and> (True \<longrightarrow> list_all (\<lambda>e. \<not> cache_lookup e) pre)
           \<and> ((w' = wm \<and> (True \<longrightarrow> isl (Inr r :: exn + RepoProcessResult)))
               \<or> clone_and_process env url True wm = (Inr r, w'))" ..
  then obtain wm where s0: "list_all preparation pre
           \<and> trace wm = trace w @ pre
           \<and> cache_files wm = cache_files w \<and> temp_dirs wm = temp_dirs w
           \<and> temp_files wm = temp_files w
           \<and> (True \<longrightarrow> list_all (\<lambda>e. \<not> cache_lookup e) pre)
           \<and> ((w' = wm \<and> (True \<longrightarrow> isl (Inr r :: exn + RepoProcessResult)))
               \<or> clone_and_process env url True wm = (Inr r, w'))" ..
  from s0 have s: "trace wm = trace w @ pre" "cache_files wm = cache_files w"
       "temp_files wm = temp_files w" "list_all (\<lambda>e. \<not> cache_lookup e) pre"
       "clone_and_process env url True wm = (Inr r, w')" by simp_all
  obtain rc w1 where C: "cloneRepo env url wm = (rc, w1)" by fastforce
  from s(5) C obtain p where rc: "rc = Inr p"
    by (cases rc) (simp_all add: clone_and_process_def)
  from cloneRepo_summary[OF C] rc have
    c: "p = ?ws" "cache_files w1 = cache_files wm" "temp_files w1 = temp_files wm"
       "trace w1 = trace wm @ [Exec (clone_command url ?ws) True]" by simp_all
  obtain ra w2 where A: "after_clone env url True ?ws w1 = (ra, w2)" by fastforce
  from s(5) C rc c(1) A have ra: "ra = Inr r \<and> w2 = w'"
    by (cases ra) (simp_all add: clone_and_process_def)
  have sha: "fst (getCommitSha env ?ws w1) = fst (getCommitSha env ?ws w)"
    by (rule getCommitSha_independent)
  have pt: "packed_text env ?ws w1 = packed_text env ?ws w"
    by (rule packed_text_cong) (simp add: c(3) s(3))
  from A ra have A': "after_clone env url True ?ws w1 = (Inr r, w')" by simp
  note f = after_clone_forced[OF A', unfolded sha pt]
  from f have r: "r = \<lparr>cacheKey = generateCacheKey url (Some (fst (getCommitSha env ?ws w))),
              fromCache = False, res_repoUrl = Some url,
              res_commitSha = Some (fst (getCommitSha env ?ws w)),
              res_size = Some (length (packed_text env ?ws w)), res_cachedAt = None\<rparr>" by simp
  let ?key = "generateCacheKey url (Some (fst (getCommitSha env ?ws w)))"
  have k: "cacheKey r = ?key" using arg_cong[OF r, of cacheKey] by simp
  let ?tail = "[Exec (clone_command url ?ws) True,
             Exec (rev_parse_command ?ws) (\<not> isl (exec_cmd env (rev_parse_command ?ws))),
             Exec (repomix_command ?ws (output_path ?ws)) True,
             Fs TempDir (Access (output_path ?ws)) True,
             Fs TempDir (ReadFile (output_path ?ws)) True,
             Fs CacheDir (WriteFile (cachePath env ?key)) True,
             Fs CacheDir (WriteFile (metadataPath env ?key)) True,
             Fs TempDir (Rm ?ws) (removable env ?ws)]"
  have "trace w' = trace w @ (pre @ ?tail)" using f c(4) s(1) by simp
  then have ne: "new_events w w' = pre @ ?tail" by (rule new_events_append)
  have cf: "cache_files w' = (cache_files w)
            (cachePath env ?key \<mapsto> packed_text env ?ws w,
             metadataPath env ?key \<mapsto> json_stringify_metadata env
                (fullMetadata env (packed_text env ?ws w)
                   \<lparr>p_repoUrl = Some url, p_commitSha = Some (fst (getCommitSha env ?ws w)),
                    p_size = Some (length (packed_text env ?ws w))\<rparr>))"
    using f c(2) s(2) by simp
  have fm: "fullMetadata env c \<lparr>p_repoUrl = Some url, p_commitSha = Some h, p_size = n\<rparr>
      = \<lparr>repoUrl = url, commitSha = h, size' = length c, cachedAt = iso_now env\<rparr>" for c h n
    by (simp add: fullMetadata_def)
  have g1: "cache_files w' (cachePath env ?key) = Some (packed_text env ?ws w)"
    unfolding cf by simp
  have g2: "cache_files w' (metadataPath env ?key)
           = Some (json_stringify_metadata env
                \<lparr>repoUrl = url, commitSha = fst (getCommitSha env ?ws w),
                 size' = length (packed_text env ?ws w), cachedAt = iso_now env\<rparr>)"
    unfolding cf fm by simp
  have g3: "Exec (clone_command url ?ws) True \<in> set (pre @ ?tail)" by simp
  have g4: "Exec (repomix_command ?ws (output_path ?ws)) True \<in> set (pre @ ?tail)" by simp
  have g5: "Fs CacheDir (WriteFile (cachePath env ?key)) True \<in> set (pre @ ?tail)" by simp
  have g6: "list_all (\<lambda>e. \<not> cache_lookup e) (pre @ ?tail)" using s(4) by simp
  show ?thesis
    unfolding ne k by (intro conjI r g1 g2 g3 g4 g5 g6)
qed




lemma pack_and_save_no_lookup:
  assumes "pack_and_save env url p sha key w = (r, w')"
  shows "\<exists>evs. trace w' = trace w @ evs \<and> list_all (\<lambda>e. \<not> cache_lookup e) evs"
proof (cases r)
  case (Inl e)
  from pack_and_save_Inl[OF assms[unfolded Inl]] obtain evs where
    q: "trace w' = trace w @ evs"
       "list_all (\<lambda>e. \<not> is_rm e \<and> \<not> cache_lookup e \<and> \<not> is_model_call e) evs" by blast
  from q(2) have "list_all (\<lambda>e. \<not> cache_lookup e) evs" by (simp add: list_all_iff)
  with q(1) show ?thesis by blast
next
  case (Inr res)
  note q = pack_and_save_Inr[OF assms[unfolded Inr]]
  let ?evs = "[Exec (repomix_command p (output_path p)) True,
                Fs TempDir (Access (output_path p)) True,
                Fs TempDir (ReadFile (output_path p)) True,
                Fs CacheDir (WriteFile (cachePath env key)) True,
                Fs CacheDir (WriteFile (metadataPath env key)) True,
                Fs TempDir (Rm p) (removable env p)]"
  from q have a: "trace w' = trace w @ ?evs" by simp
  have b: "list_all (\<lambda>e. \<not> cache_lookup e) ?evs" by simp
  show ?thesis by (rule exI[of _ ?evs]) (intro conjI a b)
qed

lemma forced_block_no_lookup:
  assumes "clone_and_process env url True w = (res, w')"
  shows "\<exists>evs. trace w' = trace w @ evs \<and> list_all (\<lambda>e. \<not> cache_lookup e) evs"
proof -
  let ?ws = "workspace_path env url"
  obtain rc w1 where C: "cloneRepo env url w = (rc, w1)" by fastforce
  note c = cloneRepo_summary[OF C]
  show ?thesis
  proof (cases rc)
    case (Inl e)
    with assms C have r: "w' = w1" by (simp add: clone_and_process_def)
    let ?evs = "[Exec (clone_command url ?ws) False]"
    have a: "trace w' = trace w @ ?evs" using c Inl r by simp
    have b: "list_all (\<lambda>e. \<not> cache_lookup e) ?evs" by simp
    show ?thesis by (rule exI[of _ ?evs]) (intro conjI a b)
  next
    case (Inr p)
    with c have p: "p = ?ws" and
      c1: "trace w1 = trace w @ [Exec (clone_command url ?ws) True]" by simp_all
    obtain sha w2 where S: "getCommitSha env ?ws w1 = (sha, w2)" by fastforce
    from getCommitSha_summary[OF S] have
      s: "trace w2 = trace w1 @ [Exec (rev_parse_command ?ws)
                                   (\<not> isl (exec_cmd env (rev_parse_command ?ws)))]" by simp
    obtain rp w3 where P: "pack_and_save env url ?ws sha (generateCacheKey url (Some sha)) w2 = (rp, w3)"
      by fastforce
    from pack_and_save_no_lookup[OF P] obtain evs where
      q: "trace w3 = trace w2 @ evs" "list_all (\<lambda>e. \<not> cache_lookup e) evs" by blast
    have A: "after_clone env url True ?ws w1 = (rp, w3)" using S P by (simp add: after_clone_def)
    let ?pre = "[Exec (clone_command url ?ws) True,
                 Exec (rev_parse_command ?ws) (\<not> isl (exec_cmd env (rev_parse_command ?ws)))]"
    show ?thesis
    proof (cases rp)
      case (Inr r)
      with assms C \<open>rc = Inr p\<close> p A have r: "w' = w3" by (simp add: clone_and_process_def)
      have a: "trace w' = trace w @ (?pre @ evs)" using r q(1) s c1 by simp
      have b: "list_all (\<lambda>e. \<not> cache_lookup e) (?pre @ evs)" using q(2) by simp
      show ?thesis by (rule exI[of _ "?pre @ evs"]) (intro conjI a b)
    next
      case (Inl e)
      with assms C \<open>rc = Inr p\<close> p A have r: "w' = cleanup env ?ws w3"
        by (simp add: clone_and_process_def)
      from cleanup_summary[of env ?ws w3] have
        k: "trace (cleanup env ?ws w3) = trace w3 @ [Fs TempDir (Rm ?ws) (removable env ?ws)]"
        by simp
      let ?evs = "?pre @ evs @ [Fs TempDir (Rm ?ws) (removable env ?ws)]"
      have a: "trace w' = trace w @ ?evs" using r k q(1) s c1 by simp
      have b: "list_all (\<lambda>e. \<not> cache_lookup e) ?evs" using q(2) by simp
      show ?thesis by (rule exI[of _ ?evs]) (intro conjI a b)
    qed
  qed
qed

lemma forced_run_no_lookup:
  assumes "processRepo env url True w = (res, w')"
  shows "list_all (\<lambda>e. \<not> cache_lookup e) (new_events w w')"
proof -
  from processRepo_shape[OF assms] obtain pre where "\<exists>wm. list_all preparation pre
           \<and> trace wm = trace w @ pre
           \<and> cache_files wm = cache_files w \<and> temp_dirs wm = temp_dirs w
           \<and> temp_files wm = temp_files w
           \<and> (True \<longrightarrow> list_all (\<lambda>e. \<not> cache_lookup e) pre)
           \<and> ((w' = wm \<and> (True \<longrightarrow> isl res))
               \<or> clone_and_process env url True wm = (res, w'))" ..
  then obtain wm where s0: "list_all preparation pre
           \<and> trace wm = trace w @ pre
           \<and> cache_files wm = cache_files w \<and> temp_dirs wm = temp_dirs w
           \<and> temp_files wm = temp_files w
           \<and> (True \<longrightarrow> list_all (\<lambda>e. \<not> cache_lookup e) pre)
           \<and> ((w' = wm \<and> (True \<longrightarrow> isl res))
               \<or> clone_and_process env url True wm = (res, w'))" ..
  from s0 have s: "trace wm = trace w @ pre" "list_all (\<lambda>e. \<not> cache_lookup e) pre"
    "w' = wm \<or> clone_and_process env url True wm = (res, w')" by auto
  from s(3) show ?thesis
  proof
    assume "w' = wm"
    then have "new_events w w' = pre" using s(1) by simp
    then show ?thesis using s(2) by simp
  next
    assume "clone_and_process env url True wm = (res, w')"
    from forced_block_no_lookup[OF this] obtain evs where
      c: "trace w' = trace wm @ evs" "list_all (\<lambda>e. \<not> cache_lookup e) evs" by blast
    have "new_events w w' = pre @ evs" using c(1) s(1) by simp
    then show ?thesis using s(2) c(2) by simp
  qed
qed






subsection \<open>The loop over the tool invocations\<close>



subsection \<open>Evaluating the example environments\<close>

lemmas service = init_def getLatestCommitShaFromGithub_def getLatestCommitShaFromGithub_try_def
  cloneRepo_def getCommitSha_def packRepo_def readPackedRepo_def saveToCache_def
  loadFromCache_def cleanup_def processRepo_def clone_and_process_def after_clone_def
  pack_and_save_def

lemmas paths = cachePath_def metadataPath_def path_join_def tempDir_def cacheDir_def
  workspace_path_def repoName_def last_segment_def output_path_def
  clone_command_def rev_parse_command_def repomix_command_def commits_url_def

lemmas demo = demo_env_def stuck_env_def unpacked_env_def offline_env_def empty_world_def
  demo_url_def

lemmas demo2 = demo gitlab_url_def demo_turn_def demo_call_def demo_request_def
  cached_world_def first_answer_def second_answer_def demo_model_def demo_arguments_def

lemmas chat_defs = handle_call_def pack_repository_try_def handle_calls_def chatResponse_def
  after_first_call_def chat_route_def chat_def new_GroqService_def parseToolCalls_def
  hasToolCalls_def systemMessage_def pack_route_def

lemmas eval = service prims paths match_here_def not_slash_def trim_def is_space_def
  show_nat.simps digit_char_def Let_def fullMetadata_def synthesized_def cached_result_def
  demo_parse_def demo_stringify_def demo_metadata_def

lemmas demo3 = demo2 single_answer_def single_turn_def call_b_def stale_world_def refusing_env_def
  truncated_world_def
  no_usage_def

lemma mg_demo: "match_github demo_url = Some (''o'', ''r'')"
  by (simp add: demo match_here_def not_slash_def)

section \<open>The claims\<close>

subsection \<open>C1: workspace cleanup on every exit path\<close>

text \<open>
  As stated, C1 also promises that the workspace directory no longer exists once the packing
  step has thrown.  \<open>cleanup\<close> catches the failure of \<open>fs.rm\<close> and only warns, so this fails
  when the removal itself fails: with a packing tool that is not installed and a workspace
  that cannot be removed, the run clones into \<open>./temp/r-7\<close>, the packing step throws, and
  the directory is still there afterwards.
\<close>

theorem workspace_left_behind:
  "workspace_path stuck_env demo_url = ''./temp/r-7''
   \<and> fst (processRepo stuck_env demo_url False empty_world)
       = Inl (Error ''Failed to pack repository: repomix: command not found'')
   \<and> Exec (clone_command demo_url ''./temp/r-7'') True
       \<in> set (new_events empty_world (snd (processRepo stuck_env demo_url False empty_world)))
   \<and> pack_threw ''./temp/r-7''
        (new_events empty_world (snd (processRepo stuck_env demo_url False empty_world)))
   \<and> last (new_events empty_world (snd (processRepo stuck_env demo_url False empty_world)))
       = Fs TempDir (Rm ''./temp/r-7'') False
   \<and> ''./temp/r-7'' \<in> temp_dirs (snd (processRepo stuck_env demo_url False empty_world))"
  by (simp add: eval demo3 new_events_def pack_threw_def)

text \<open>
  Claim C1, amended.  For every run of \<open>processRepo\<close>: if the clone step returned a path (the
  clone command succeeded), then the removal of that path is the last call of the run,
  whether the run returns a result or throws; the directory and the files below it are gone
  afterwards whenever that removal succeeds.  If the packing step threw (the packing
  command failed, or its output file was not there), then the run throws, the cache
  directory is exactly as it was before the run, and the clone had returned a path.
\<close>

theorem cleanup_on_every_exit:
  assumes run: "processRepo env url force w = (res, w')"
  shows "(Exec (clone_command url (workspace_path env url)) True \<in> set (new_events w w') \<longrightarrow>
            last (new_events w w')
              = Fs TempDir (Rm (workspace_path env url)) (removable env (workspace_path env url))
            \<and> (removable env (workspace_path env url) \<longrightarrow>
                  workspace_path env url \<notin> temp_dirs w'
                  \<and> (\<forall>f. prefix (workspace_path env url @ ''/'') f \<longrightarrow> temp_files w' f = None)))
       \<and> (pack_threw (workspace_path env url) (new_events w w') \<longrightarrow>
            isl res \<and> cache_files w' = cache_files w
            \<and> Exec (clone_command url (workspace_path env url)) True \<in> set (new_events w w'))"
proof -
  let ?ws = "workspace_path env url"
  from processRepo_shape[OF run] obtain pre wm where
    s: "list_all preparation pre" "trace wm = trace w @ pre" "cache_files wm = cache_files w"
       "(w' = wm) \<or> clone_and_process env url force wm = (res, w')" by blast
  note np = preparation_no_clone[OF s(1)] preparation_not_pack[OF s(1)]
  from s(4) show ?thesis
  proof
    assume "w' = wm"
    then have "new_events w w' = pre" using s(2) by simp
    then show ?thesis using np by simp
  next
    assume "clone_and_process env url force wm = (res, w')"
    from clone_and_process_summary[OF this] obtain evs where
      c: "trace w' = trace wm @ evs"
         "Exec (clone_command url ?ws) True \<in> set evs \<longrightarrow>
                last evs = Fs TempDir (Rm ?ws) (removable env ?ws)
                \<and> (removable env ?ws \<longrightarrow> ?ws \<notin> temp_dirs w'
                      \<and> (\<forall>f. prefix (?ws @ ''/'') f \<longrightarrow> temp_files w' f = None))"
         "pack_threw ?ws evs \<longrightarrow> isl res \<and> cache_files w' = cache_files wm
                \<and> Exec (clone_command url ?ws) True \<in> set evs" by blast
    have ne: "new_events w w' = pre @ evs" using c(1) s(2) by simp
    have l: "last (pre @ evs) = last evs" if "Exec (clone_command url ?ws) True \<in> set evs"
      using that by (cases evs) auto
    show ?thesis unfolding ne using c(2,3) np l s(3) by auto
  qed
qed

text \<open>
  An instance: a packing tool that is not installed, on an empty cache, with a workspace
  that can be removed.
\<close>

theorem cleanup_on_every_exit_witness:
  "Exec (clone_command demo_url (workspace_path unpacked_env demo_url)) True
       \<in> set (new_events empty_world (snd (processRepo unpacked_env demo_url False empty_world)))
   \<and> pack_threw (workspace_path unpacked_env demo_url)
        (new_events empty_world (snd (processRepo unpacked_env demo_url False empty_world)))
   \<and> removable unpacked_env (workspace_path unpacked_env demo_url)
   \<and> last (new_events empty_world (snd (processRepo unpacked_env demo_url False empty_world)))
       = Fs TempDir (Rm (workspace_path unpacked_env demo_url)) True
   \<and> workspace_path unpacked_env demo_url
       \<notin> temp_dirs (snd (processRepo unpacked_env demo_url False empty_world))
   \<and> isl (fst (processRepo unpacked_env demo_url False empty_world))
   \<and> cache_files (snd (processRepo unpacked_env demo_url False empty_world))
       = cache_files empty_world"
proof -
  let ?R = "processRepo unpacked_env demo_url False empty_world"
  have run: "?R = (fst ?R, snd ?R)" by simp
  have a: "Exec (clone_command demo_url (workspace_path unpacked_env demo_url)) True
             \<in> set (new_events empty_world (snd ?R))"
    by (simp add: eval demo3 new_events_def)
  have b: "pack_threw (workspace_path unpacked_env demo_url) (new_events empty_world (snd ?R))"
    by (simp add: eval demo3 new_events_def pack_threw_def)
  have c: "removable unpacked_env (workspace_path unpacked_env demo_url)"
    by (simp add: removable_def demo3)
  from cleanup_on_every_exit[OF run] a b c show ?thesis by simp
qed

subsection \<open>C2: the cache hit before any clone\<close>



subsection \<open>C3: reading back what was saved\<close>

text \<open>
  Claim C3.  After \<open>saveToCache(key, content, meta)\<close> has returned, \<open>loadFromCache(key)\<close>
  returns the same content and metadata whose size is the length of the content, for a
  content file that can be read and a runtime whose \<open>JSON.parse\<close> inverts \<open>JSON.stringify\<close>
  on the record written; when the sidecar can be read the metadata is the record written.
\<close>

theorem cache_round_trip:
  assumes "saveToCache env key c m w = (Inr p, w1)"
    and "fs_fault env (Access (cachePath env key)) = None"
    and "fs_fault env (ReadFile (cachePath env key)) = None"
    and "json_parse_metadata env (json_stringify_metadata env (fullMetadata env c m))
           = Some (fullMetadata env c m)"
  shows "\<exists>cached w2. loadFromCache env key w1 = (Some cached, w2)
           \<and> content cached = c \<and> size' (metadata cached) = length c
           \<and> (fs_fault env (ReadFile (metadataPath env key)) = None
                \<longrightarrow> metadata cached = fullMetadata env c m)"
  using assms
  by (auto simp: saveToCache_def loadFromCache_def prims synthesized_def fullMetadata_def
       split: option.splits prod.splits sum.splits if_splits)

theorem cache_round_trip_witness:
  "fst (saveToCache demo_env ''k'' ''packed text''
          \<lparr>p_repoUrl = Some demo_url, p_commitSha = Some ''abc123'', p_size = Some 11\<rparr> empty_world)
     = Inr (cachePath demo_env ''k'')
   \<and> fst (loadFromCache demo_env ''k''
            (snd (saveToCache demo_env ''k'' ''packed text''
               \<lparr>p_repoUrl = Some demo_url, p_commitSha = Some ''abc123'', p_size = Some 11\<rparr>
               empty_world)))
     = Some \<lparr>content = ''packed text'', metadata = demo_metadata\<rparr>
   \<and> size' demo_metadata = length ''packed text''"
proof -
  let ?pm = "\<lparr>p_repoUrl = Some demo_url, p_commitSha = Some ''abc123'', p_size = Some 11\<rparr>"
  let ?S = "saveToCache demo_env ''k'' ''packed text'' ?pm empty_world"
  have f: "fst ?S = Inr (cachePath demo_env ''k'')"
    by (simp add: saveToCache_def prims demo3)
  then have sv: "?S = (Inr (cachePath demo_env ''k''), snd ?S)"
    by (metis prod.collapse)
  have fm: "fullMetadata demo_env ''packed text'' ?pm = demo_metadata"
    by (simp add: fullMetadata_def demo_metadata_def demo3)
  have rt: "json_parse_metadata demo_env
              (json_stringify_metadata demo_env (fullMetadata demo_env ''packed text'' ?pm))
            = Some (fullMetadata demo_env ''packed text'' ?pm)"
    unfolding fm by (simp add: demo_env_def demo_parse_def)
  have nf: "fs_fault demo_env op = None" for op by (simp add: demo_env_def)
  from cache_round_trip[OF sv nf nf rt] nf[of "ReadFile (metadataPath demo_env ''k'')"] obtain cached w2 where
    l: "loadFromCache demo_env ''k'' (snd ?S) = (Some cached, w2)" "content cached = ''packed text''"
       "metadata cached = fullMetadata demo_env ''packed text'' ?pm"
    by blast
  have "cached = \<lparr>content = ''packed text'', metadata = demo_metadata\<rparr>"
    using l(2,3) fm by (cases cached) simp
  with l(1) f show ?thesis by (simp add: demo_metadata_def)
qed

subsection \<open>C4: the cache key\<close>



subsection \<open>C5: a sidecar that cannot be used\<close>

text \<open>
  Claim C5.  If the content file of a key exists and can be read, and the metadata sidecar
  is missing, cannot be read, or does not parse (as a truncated one does not), then
  \<open>loadFromCache\<close> returns the content with the synthesized metadata, whose size is the
  length of the content.
\<close>

theorem load_tolerates_bad_sidecar:
  assumes "cache_files w (cachePath env key) = Some c"
    and "fs_fault env (Access (cachePath env key)) = None"
    and "fs_fault env (ReadFile (cachePath env key)) = None"
    and "sidecar_unusable env w key"
  shows "fst (loadFromCache env key w) = Some \<lparr>content = c, metadata = synthesized env c\<rparr>
         \<and> size' (synthesized env c) = length c"
  using assms
  by (auto simp: loadFromCache_def prims synthesized_def sidecar_unusable_def
       split: option.splits prod.splits sum.splits if_splits)

theorem load_tolerates_bad_sidecar_witness:
  "cache_files truncated_world (cachePath demo_env ''k'') = Some ''cached text''
   \<and> cache_files truncated_world (metadataPath demo_env ''k'')
       = Some ''https://gi''
   \<and> sidecar_unusable demo_env truncated_world ''k''
   \<and> fst (loadFromCache demo_env ''k'' truncated_world)
     = Some \<lparr>content = ''cached text'', metadata = synthesized demo_env ''cached text''\<rparr>
   \<and> size' (synthesized demo_env ''cached text'') = 11"
proof -
  have a: "cache_files truncated_world (cachePath demo_env ''k'') = Some ''cached text''"
    by (simp add: truncated_world_def)
  have c: "cache_files truncated_world (metadataPath demo_env ''k'') = Some ''https://gi''"
    by (simp add: truncated_world_def demo_stringify_def demo_metadata_def demo_url_def)
  have p: "json_parse_metadata demo_env ''https://gi'' = None"
    by (simp add: demo_env_def demo_parse_def demo_stringify_def demo_metadata_def demo_url_def)
  have b: "sidecar_unusable demo_env truncated_world ''k''"
    unfolding sidecar_unusable_def c using p by simp
  have nf: "fs_fault demo_env op = None" for op by (simp add: demo_env_def)
  from load_tolerates_bad_sidecar[OF a nf nf b] a b c show ?thesis by simp
qed

subsection \<open>C6: a source location that is not supported\<close>

text \<open>
  C6 says that \<open>processRepo\<close> refuses an unsupported source location before doing any work.
  The check is in the route \<open>POST /api/repo/pack\<close> only; \<open>processRepo\<close> itself has none, and
  the chat route calls it with whatever the model supplied.  For a GitLab URL the pack
  route answers 400 and touches nothing, while \<open>processRepo\<close>, and the chat route's tool
  call with it, clones the repository into a workspace, packs it and records a result.
\<close>

theorem unsupported_url_is_cloned:
  "pack_route demo_env \<lparr>pack_repoUrl = gitlab_url, pack_forceRefresh = None\<rparr> empty_world
     = (Status400 ''Only GitHub URLs are supported currently'', empty_world)
   \<and> fst (processRepo demo_env gitlab_url False empty_world)
     = Inr \<lparr>cacheKey = generateCacheKey gitlab_url (Some ''abc123''), fromCache = False,
            res_repoUrl = Some gitlab_url, res_commitSha = Some ''abc123'',
            res_size = Some 11, res_cachedAt = None\<rparr>
   \<and> Exec ''git clone --depth 1 https://gitlab.com/o/r ./temp/r-7'' True
       \<in> set (trace (snd (processRepo demo_env gitlab_url False empty_world)))
   \<and> toolCalls (fst (handle_call demo_env ''gsk_demo''
                       (demo_call ''pack_repository'' gitlab_url None) (demo_turn, empty_world)))
     = [\<lparr>tool = ''pack_repository'',
         tool_arguments = \<lparr>arg_repoUrl = gitlab_url, arg_forceRefresh = None\<rparr>,
         result = Some \<lparr>cacheKey = generateCacheKey gitlab_url (Some ''abc123''), fromCache = False,
            res_repoUrl = Some gitlab_url, res_commitSha = Some ''abc123'',
            res_size = Some 11, res_cachedAt = None\<rparr>,
         error = None\<rparr>]"
  by (simp add: chat_defs eval demo2)

subsection \<open>C7: a tool invocation whose pipeline throws\<close>




subsection \<open>C8: resolving the revision without a clone\<close>

text \<open>
  Claim C8.  \<open>getLatestCommitShaFromGithub\<close> never throws.  A URL that does not match gives
  \<open>'latest'\<close> without any request.  Otherwise the commit of \<open>main\<close> is requested; a rejected
  request gives \<open>'latest'\<close>; an answer with an error status is followed by the same request
  for \<open>master\<close>, and \<open>'latest'\<close> is returned when that is rejected or has an error status
  too; an answer with a good status gives its \<open>sha\<close>, or \<open>'latest'\<close> when its body cannot be
  used.  Whatever the body of the method throws becomes \<open>'latest'\<close>; the cache and the
  workspaces are not touched; and \<open>'latest'\<close> is hashed into a key like any revision.
\<close>

theorem revision_resolution_never_raises:
  "(match_github url = None \<longrightarrow>
      getLatestCommitShaFromGithub env url w = (Some ''latest'', w))
   \<and> (\<forall>owner repo. match_github url = Some (owner, repo) \<longrightarrow>
        (let main = commits_url owner (remove_first ''.git'' repo) ''main'';
             master = commits_url owner (remove_first ''.git'' repo) ''master'';
             sha = fst (getLatestCommitShaFromGithub env url w);
             evs = new_events w (snd (getLatestCommitShaFromGithub env url w))
         in (case http_fetch env main of
               Inl m \<Rightarrow> sha = Some ''latest'' \<and> evs = [Fetch main False]
             | Inr r \<Rightarrow>
                 if ok r then
                   evs = [Fetch main True]
                   \<and> sha = (case body r of JsonData s \<Rightarrow> s | _ \<Rightarrow> Some ''latest'')
                 else
                   (case http_fetch env master of
                      Inl m \<Rightarrow> sha = Some ''latest'' \<and> evs = [Fetch main True, Fetch master False]
                    | Inr r2 \<Rightarrow>
                        evs = [Fetch main True, Fetch master True]
                        \<and> sha = (if ok r2
                                 then (case body r2 of JsonData s \<Rightarrow> s | _ \<Rightarrow> Some ''latest'')
                                 else Some ''latest'')))))
   \<and> (\<forall>e w1. getLatestCommitShaFromGithub_try env url w = (Inl e, w1) \<longrightarrow>
          getLatestCommitShaFromGithub env url w = (Some ''latest'', w1))
   \<and> cache_files (snd (getLatestCommitShaFromGithub env url w)) = cache_files w
   \<and> temp_dirs (snd (getLatestCommitShaFromGithub env url w)) = temp_dirs w
   \<and> generateCacheKey url (Some ''latest'') = sha256_hex (url @ '':latest'')"
  by (auto simp: getLatestCommitShaFromGithub_def getLatestCommitShaFromGithub_try_def prims
        new_events_def Let_def generateCacheKey_def key_material_def split: splits)

theorem revision_resolution_never_raises_witness:
  "match_github demo_url = Some (''o'', ''r'')
   \<and> http_fetch refusing_env ''https://api.github.com/repos/o/r/commits/main''
       = Inr \<lparr>ok = False, body = JsonNull\<rparr>
   \<and> fst (getLatestCommitShaFromGithub refusing_env demo_url empty_world) = Some ''latest''
   \<and> new_events empty_world (snd (getLatestCommitShaFromGithub refusing_env demo_url empty_world))
       = [Fetch ''https://api.github.com/repos/o/r/commits/main'' True,
          Fetch ''https://api.github.com/repos/o/r/commits/master'' True]
   \<and> match_github gitlab_url = None
   \<and> getLatestCommitShaFromGithub refusing_env gitlab_url empty_world = (Some ''latest'', empty_world)"
proof -
  have m: "match_github demo_url = Some (''o'', ''r'')" by (rule mg_demo)
  have g: "match_github gitlab_url = None"
    by (simp add: gitlab_url_def match_here_def)
  have h: "http_fetch refusing_env u = Inr \<lparr>ok = False, body = JsonNull\<rparr>" for u
    by (simp add: refusing_env_def demo_env_def)
  from revision_resolution_never_raises[of demo_url refusing_env empty_world] revision_resolution_never_raises[of gitlab_url refusing_env empty_world] m g h
  show ?thesis by (simp add: Let_def commits_url_def)
qed

subsection \<open>C9: forced refresh\<close>

text \<open>
  Claim C9.  A run of \<open>processRepo\<close> with forced refresh makes no cache lookup at all; and
  when it returns a result, that result has \<open>fromCache = false\<close> and the key recomputed from
  the revision of the checkout, the clone and the packing command have run, and the cache
  holds the packed text and its metadata under that key, whatever it held before.
\<close>

theorem forced_refresh_repacks:
  assumes run: "processRepo env url True w = (res, w')"
  shows "list_all (\<lambda>e. \<not> cache_lookup e) (new_events w w')
       \<and> (\<forall>r. res = Inr r \<longrightarrow>
            r = \<lparr>cacheKey = generateCacheKey url (Some (fst (getCommitSha env (workspace_path env url) w))),
                  fromCache = False, res_repoUrl = Some url,
                  res_commitSha = Some (fst (getCommitSha env (workspace_path env url) w)),
                  res_size = Some (length (packed_text env (workspace_path env url) w)),
                  res_cachedAt = None\<rparr>
            \<and> cache_files w' (cachePath env (cacheKey r))
                = Some (packed_text env (workspace_path env url) w)
            \<and> cache_files w' (metadataPath env (cacheKey r))
                = Some (json_stringify_metadata env
                     \<lparr>repoUrl = url, commitSha = fst (getCommitSha env (workspace_path env url) w),
                      size' = length (packed_text env (workspace_path env url) w),
                      cachedAt = iso_now env\<rparr>)
            \<and> Exec (clone_command url (workspace_path env url)) True \<in> set (new_events w w')
            \<and> Exec (repomix_command (workspace_path env url) (output_path (workspace_path env url)))
                 True \<in> set (new_events w w')
            \<and> Fs CacheDir (WriteFile (cachePath env (cacheKey r))) True \<in> set (new_events w w'))"
    (is "_ \<and> (\<forall>r. _ \<longrightarrow> ?B r)")
proof (rule conjI)
  show "list_all (\<lambda>e. \<not> cache_lookup e) (new_events w w')"
    using run by (rule forced_run_no_lookup)
next
  show "\<forall>r. res = Inr r \<longrightarrow> ?B r"
  proof (intro allI impI)
    fix r assume "res = Inr r"
    with run have "processRepo env url True w = (Inr r, w')" by simp
    from forced_result[OF this] show "?B r"
      by (elim conjE) (intro conjI; assumption)
  qed
qed

text \<open>An instance: the cache already holds an older text under the recomputed key.\<close>

theorem forced_refresh_repacks_witness:
  "cache_files stale_world (cachePath demo_env (generateCacheKey demo_url (Some ''abc123'')))
     = Some ''old text''
   \<and> fst (processRepo demo_env demo_url True stale_world)
     = Inr \<lparr>cacheKey = generateCacheKey demo_url (Some ''abc123''), fromCache = False,
            res_repoUrl = Some demo_url, res_commitSha = Some ''abc123'',
            res_size = Some 11, res_cachedAt = None\<rparr>
   \<and> cache_files (snd (processRepo demo_env demo_url True stale_world))
        (cachePath demo_env (generateCacheKey demo_url (Some ''abc123'')))
     = Some ''packed text''
   \<and> list_all (\<lambda>e. \<not> cache_lookup e)
        (new_events stale_world (snd (processRepo demo_env demo_url True stale_world)))"
proof -
  let ?R = "processRepo demo_env demo_url True stale_world"
  let ?r = "\<lparr>cacheKey = generateCacheKey demo_url (Some ''abc123''), fromCache = False,
            res_repoUrl = Some demo_url, res_commitSha = Some ''abc123'',
            res_size = Some 11, res_cachedAt = None\<rparr>"
  have a: "cache_files stale_world (cachePath demo_env (generateCacheKey demo_url (Some ''abc123'')))
     = Some ''old text''" by (simp add: stale_world_def)
  have f: "fst ?R = Inr ?r"
    by (simp add: eval demo3)
  then have run: "?R = (Inr ?r, snd ?R)" by (metis prod.collapse)
  have s: "fst (getCommitSha demo_env (workspace_path demo_env demo_url) stale_world) = ''abc123''"
    by (simp add: eval demo3)
  have p: "packed_text demo_env (workspace_path demo_env demo_url) stale_world = ''packed text''"
    by (simp add: packed_text_def demo_env_def)
  from forced_refresh_repacks[OF run] a f s p show ?thesis by simp
qed

subsection \<open>C10: invocations of other tools\<close>

text \<open>
  Claim C10.  An iteration of the loop on a parsed invocation whose name is not
  \<open>pack_repository\<close> changes nothing: neither the world (no pipeline run) nor the tool-call
  records, the messages, the response or the cache key; the whole loop does what it does on
  the \<open>pack_repository\<close> invocations alone.
\<close>

theorem unknown_tool_is_skipped:
  "(name call \<noteq> ''pack_repository'' \<longrightarrow> handle_call env apiKey call (t, w) = (t, w))
   \<and> handle_calls env apiKey calls tw
       = handle_calls env apiKey (filter (\<lambda>c. name c = ''pack_repository'') calls) tw"
proof
  show "name call \<noteq> ''pack_repository'' \<longrightarrow> handle_call env apiKey call (t, w) = (t, w)"
    by (simp add: handle_call_def)
  show "handle_calls env apiKey calls tw
       = handle_calls env apiKey (filter (\<lambda>c. name c = ''pack_repository'') calls) tw"
    unfolding handle_calls_def
  proof (induction calls arbitrary: tw)
    case Nil
    show ?case by simp
  next
    case (Cons c cs)
    show ?case
    proof (cases "name c = ''pack_repository''")
      case True
      then show ?thesis using Cons.IH by simp
    next
      case False
      then have "handle_call env apiKey c tw = tw"
        by (cases tw) (simp add: handle_call_def)
      with False show ?thesis using Cons.IH by simp
    qed
  qed
qed

theorem unknown_tool_is_skipped_witness:
  "name (demo_call ''search_code'' demo_url None) \<noteq> ''pack_repository''
   \<and> handle_call demo_env ''gsk_demo'' (demo_call ''search_code'' demo_url None)
        (demo_turn, empty_world) = (demo_turn, empty_world)
   \<and> handle_calls demo_env ''gsk_demo'' [demo_call ''search_code'' demo_url None]
        (demo_turn, empty_world) = (demo_turn, empty_world)"
proof -
  have n: "name (demo_call ''search_code'' demo_url None) \<noteq> ''pack_repository''"
    by (simp add: demo_call_def)
  from unknown_tool_is_skipped[of "demo_call ''search_code'' demo_url None" demo_env "''gsk_demo''" demo_turn empty_world
            "[demo_call ''search_code'' demo_url None]" "(demo_turn, empty_world)"] n
  show ?thesis by (simp add: handle_calls_def)
qed

end
